theory Spec2Isabelle
  imports Main "HOL-Library.Word"
begin

unbundle bit_operations_syntax

section \<open>Connections of the topology package (x/mongo/driver/topology/connection.go)\<close>

text \<open>
  A shallow embedding of \<^verbatim>\<open>connection.go\<close>: the connection struct and its
  connect, read and write paths, and the Connection handle with its pin counting.
  Go pointers that may be nil are options, panics (a nil dereference) are the value
  \<open>Panics\<close>, errors are values of the datatype \<open>error\<close>, and every collaborator the
  file reaches through an interface (the socket, the dialer, the TLS sources, the
  handshaker, the pool) is a record of the results its calls give.
\<close>

subsection \<open>Values\<close>

type_synonym byte = "8 word"
type_synonym int32 = "32 word"
type_synonym uint32 = "32 word"

text \<open>A call either panics or returns.\<close>

datatype 'a exec = Panics | Returns 'a

text \<open>
  The errors of the file. \<open>NetTimeout\<close> stands for any \<^verbatim>\<open>net.Error\<close> whose
  \<^verbatim>\<open>Timeout()\<close> is true, \<open>NetFailure\<close> for any other error of a collaborator
  (tagged with a name). \<open>DeadlineExceeded e\<close> is the error built by
  \<^verbatim>\<open>fmt.Errorf("%w: %s: %s", context.DeadlineExceeded, ..., e.Error())\<close>.
  The message of a \<open>ConnectionError\<close> is a literal or the text of an error
  (\<^verbatim>\<open>err.Error()\<close>).
\<close>

datatype error =
    ErrEOF
  | ErrUnexpectedEOF
  | NetTimeout
  | NetFailure string
  | Canceled
  | DeadlineExceeded error
  | MalformedLength int32
  | errResponseTooLarge
  | errLoadBalancedStateMismatch
  | ErrConnectionClosed
  | ErrTooShortToCompress
  | ErrPinReleased string
  | ErrUnpinNotPinned string
  | ConnectionError string "error option" bool message
and message = Lit string | ErrorText error

text \<open>Connection state constants (lines 34-38).\<close>

datatype conn_state = connDisconnected | connConnected | connInitialized

definition defaultMaxMessageSize :: uint32 where
  "defaultMaxMessageSize = 48000000"

subsection \<open>The socket\<close>

text \<open>
  A \<^verbatim>\<open>net.Conn\<close> as the file uses it. \<open>incoming\<close> are the bytes the peer delivers
  before the stream stops with \<open>incoming_end\<close> (end of stream, a timeout, a failure);
  \<open>written\<close> are the bytes written so far; the four results are what
  \<^verbatim>\<open>SetReadDeadline\<close>, \<^verbatim>\<open>SetWriteDeadline\<close>, \<^verbatim>\<open>Write\<close> and \<^verbatim>\<open>Close\<close>
  return. \<open>layers\<close> lists the secure transports wrapped around the raw socket.
\<close>

datatype secure_layer = TLS_layer | TLCP_layer

record netconn =
  nc_closed :: bool
  layers :: "secure_layer list"
  incoming :: "byte list"
  incoming_end :: error
  written :: "byte list"
  SetReadDeadline :: "error option"
  SetWriteDeadline :: "error option"
  Write_result :: "error option"
  Close_result :: "error option"

text \<open>
  \<^verbatim>\<open>io.ReadFull(nc, buf)\<close> for a buffer of \<open>k\<close> bytes: the bytes read, their number
  and the error. An empty buffer is filled without a read; a stream that ends early gives
  \<^verbatim>\<open>io.EOF\<close> when nothing was read and \<^verbatim>\<open>io.ErrUnexpectedEOF\<close> otherwise; any other
  error of the socket is returned as it is.
\<close>

definition ReadFull :: "netconn \<Rightarrow> nat \<Rightarrow> (byte list \<times> nat \<times> error option) \<times> netconn" where
  "ReadFull s k =
     (if k = 0 then (([], 0, None), s)
      else if k \<le> length (incoming s)
      then ((take k (incoming s), k, None), s\<lparr>incoming := drop k (incoming s)\<rparr>)
      else ((incoming s, length (incoming s),
             Some (case incoming_end s of
                     ErrEOF \<Rightarrow> (if incoming s = [] then ErrEOF else ErrUnexpectedEOF)
                   | e \<Rightarrow> e)),
            s\<lparr>incoming := []\<rparr>))"

text \<open>\<^verbatim>\<open>nc.Write(wm)\<close>: the error the socket gives; the bytes are written when it is nil.\<close>

definition nc_Write :: "netconn \<Rightarrow> byte list \<Rightarrow> error option \<times> netconn" where
  "nc_Write s wm =
     (case Write_result s of
        None \<Rightarrow> (None, s\<lparr>written := written s @ wm\<rparr>)
      | Some e \<Rightarrow> (Some e, s))"

definition nc_Close :: "netconn \<Rightarrow> error option \<times> netconn" where
  "nc_Close s = (Close_result s, s\<lparr>nc_closed := True\<rparr>)"

subsection \<open>Server description and configuration\<close>

record server_description =
  ServiceID :: "string option"
  MaxMessageSize :: uint32
  Compression :: "string list"

text \<open>\<^verbatim>\<open>description.Server{}\<close>, the zero value.\<close>

definition empty_description :: server_description where
  "empty_description = \<lparr>ServiceID = None, MaxMessageSize = 0, Compression = []\<rparr>"

datatype CompressorID = CompressorNoOp | CompressorSnappy | CompressorZLib | CompressorZstd

record tls_config =
  ServerName :: string
  InsecureSkipVerify :: bool

record tlcp_config =
  tlcp_ServerName :: string
  tlcp_InsecureSkipVerify :: bool

record handshake_information =
  Description :: server_description
  ServerConnectionID :: "int option"

text \<open>
  The handshaker (an interface, lines 287-322): the results of its two calls. What it
  reads and writes on the connection meanwhile is not part of the model.
\<close>

record handshaker_results =
  GetHandshakeInformation :: "error + handshake_information"
  FinishHandshake :: "error option"

text \<open>
  \<^verbatim>\<open>connectionConfig\<close>, with the collaborators it carries as the results of their
  calls: the dialer's \<^verbatim>\<open>DialContext\<close>, the handshake of the client a TLS (TLCP) source
  makes for a configuration, and \<^verbatim>\<open>ocsp.Verify\<close>.
\<close>

record connectionConfig =
  loadBalanced :: bool
  getGenerationFn :: "(string option \<Rightarrow> nat) option"
  dialer :: "error + netconn"
  tlsConfig :: "tls_config option"
  tlsHandshake :: "tls_config \<Rightarrow> error option"
  ocspVerify :: "error option"
  tlcpConfig :: "tlcp_config option"
  tlcpHandshake :: "tlcp_config \<Rightarrow> error option"
  handshaker :: "handshaker_results option"
  compressors :: "string list"
  zlibLevel :: "int option"
  zstdLevel :: "int option"

subsection \<open>The connection\<close>

text \<open>
  The pool of a connection is not in this file: it is the results that its
  \<^verbatim>\<open>checkIn\<close> and \<^verbatim>\<open>stale\<close> give for the connection.
\<close>

record pool =
  checkIn_result :: "error option"
  stale_result :: bool

text \<open>
  The struct of lines 50-88, without the fields for idle time, streaming, channels and
  the OIDC token. \<open>addr\<close> holds the text \<^verbatim>\<open>c.addr.String()\<close>.
\<close>

record connection =
  state :: conn_state
  conn_id :: string
  nc :: "netconn option"
  addr :: string
  desc :: server_description
  compressor :: CompressorID
  zliblevel :: int
  zstdLevel_c :: int
  config :: connectionConfig
  serverConnectionID :: "int option"
  driverConnectionID :: int
  generation :: nat
  awaitRemainingBytes :: "int32 option"
  pool :: pool

text \<open>The context of a call: what \<^verbatim>\<open>ctx.Err()\<close> is and whether it has a deadline.\<close>

datatype ctx_error = ctx_Canceled | ctx_DeadlineExceeded

record go_context =
  ctx_Err :: "ctx_error option"
  ctx_has_deadline :: bool

text \<open>\<^verbatim>\<open>close\<close> (lines 553-571): only the first call on a connected connection closes the socket.\<close>

definition close :: "connection \<Rightarrow> error option \<times> connection" where
  "close c =
     (if state c \<noteq> connConnected then (None, c)
      else (case nc c of
              None \<Rightarrow> (None, c\<lparr>state := connDisconnected\<rparr>)
            | Some s \<Rightarrow>
                (let (err, s') = nc_Close s
                 in (err, c\<lparr>state := connDisconnected, nc := Some s'\<rparr>))))"

definition closed :: "connection \<Rightarrow> bool" where
  "closed c = (state c = connDisconnected)"

definition cancellationListenerCallback :: "connection \<Rightarrow> connection" where
  "cancellationListenerCallback c = snd (close c)"

text \<open>
  Modelled from the spec: the cancellation listener (\<^verbatim>\<open>contextListener\<close>) is not in
  this file. It races the socket operation; when the cancellation fires it invokes the
  abort callback and records that it aborted, and \<^verbatim>\<open>StopListening\<close> reports that
  record. \<open>aborted\<close> is that report.
\<close>

definition Listen :: "bool \<Rightarrow> (connection \<Rightarrow> connection) \<Rightarrow> connection \<Rightarrow> connection" where
  "Listen aborted abortFn c = (if aborted then abortFn c else c)"

text \<open>\<^verbatim>\<open>transformNetworkError\<close> (lines 377-400).\<close>

definition is_net_timeout :: "error \<Rightarrow> bool" where
  "is_net_timeout e = (e = NetTimeout)"

definition transformNetworkError :: "go_context \<Rightarrow> error option \<Rightarrow> bool \<Rightarrow> error option" where
  "transformNetworkError ctx originalError contextDeadlineUsed =
     (case originalError of
        None \<Rightarrow> None
      | Some e \<Rightarrow>
          (if ctx_Err ctx = Some ctx_Canceled then Some Canceled
           else if \<not> contextDeadlineUsed then Some e
           else if is_net_timeout e then Some (DeadlineExceeded e)
           else Some e))"

subsection \<open>Writing\<close>

text \<open>\<^verbatim>\<open>write\<close> (lines 429-444): the socket write, then the deferred check of the listener.\<close>

definition write_conn :: "connection \<Rightarrow> bool \<Rightarrow> byte list \<Rightarrow> (error option \<times> connection) exec" where
  "write_conn c aborted wm =
     (let c0 = Listen aborted cancellationListenerCallback c
      in case nc c0 of
           None \<Rightarrow> Panics
         | Some s \<Rightarrow>
             (let (err, s') = nc_Write s wm;
                  c1 = c0\<lparr>nc := Some s'\<rparr>
              in Returns (if aborted \<and> err = None then Some Canceled else err, c1)))"

text \<open>\<^verbatim>\<open>writeWireMessage\<close> (lines 402-427).\<close>

definition writeWireMessage ::
  "connection \<Rightarrow> go_context \<Rightarrow> bool \<Rightarrow> byte list \<Rightarrow> (error option \<times> connection) exec" where
  "writeWireMessage c ctx aborted wm =
     (if state c \<noteq> connConnected
      then Returns (Some (ConnectionError (conn_id c) None False (Lit ''connection is closed'')), c)
      else case nc c of
             None \<Rightarrow> Panics
           | Some s \<Rightarrow>
               (case SetWriteDeadline s of
                  Some e \<Rightarrow>
                    Returns (Some (ConnectionError (conn_id c) (Some e) False
                                     (Lit ''failed to set write deadline'')), c)
                | None \<Rightarrow>
                    (case write_conn c aborted wm of
                       Panics \<Rightarrow> Panics
                     | Returns (err, c1) \<Rightarrow>
                         (case err of
                            Some e \<Rightarrow>
                              (let c2 = snd (close c1)
                               in Returns (Some (ConnectionError (conn_id c2)
                                             (transformNetworkError ctx (Some e) (ctx_has_deadline ctx))
                                             False (Lit ''unable to write wire message to network'')), c2))
                          | None \<Rightarrow> Returns (None, c1)))))"

subsection \<open>Reading\<close>

text \<open>\<^verbatim>\<open>binary.LittleEndian.Uint32\<close> on the four bytes of the size prefix.\<close>

fun LittleEndian_Uint32 :: "byte list \<Rightarrow> uint32" where
  "LittleEndian_Uint32 [b0, b1, b2, b3] =
     (ucast b0 OR push_bit 8 (ucast b1) OR push_bit 16 (ucast b2) OR push_bit 24 (ucast b3))"
| "LittleEndian_Uint32 _ = 0"

text \<open>
  \<^verbatim>\<open>parseWmSizeBytes\<close> (lines 478-496). The size is an int32: the first comparison is
  signed, the second one is on \<^verbatim>\<open>uint32(sz)\<close>.
\<close>

definition parseWmSizeBytes :: "connection \<Rightarrow> byte list \<Rightarrow> error + int32" where
  "parseWmSizeBytes c wmSizeBytes =
     (let sz = LittleEndian_Uint32 wmSizeBytes
      in if sz <s 4 then Inl (MalformedLength sz)
         else (let maxMessageSize =
                     (if MaxMessageSize (desc c) = 0 then defaultMaxMessageSize
                      else MaxMessageSize (desc c))
               in if sz > maxMessageSize then Inl errResponseTooLarge
                  else Inr sz))"

definition isCSOTTimeout :: "error \<Rightarrow> bool" where
  "isCSOTTimeout err = (err = NetTimeout)"

text \<open>
  The deferred function of \<^verbatim>\<open>read\<close> (lines 500-509): a nil error becomes
  \<^verbatim>\<open>context.Canceled\<close> when the listener had aborted.
\<close>

definition read_deferred ::
  "bool \<Rightarrow> byte list option \<times> message \<times> error option \<Rightarrow> byte list option \<times> message \<times> error option" where
  "read_deferred aborted r =
     (case r of (bytesRead, errMsg, err) \<Rightarrow>
        (if aborted \<and> err = None
         then (bytesRead, Lit ''unable to read server response'', Some Canceled)
         else (bytesRead, errMsg, err)))"

text \<open>
  \<^verbatim>\<open>read\<close> (lines 498-551). The result is the bytes (\<open>None\<close> for nil), the message
  and the error.
\<close>

definition read ::
  "connection \<Rightarrow> bool \<Rightarrow> ((byte list option \<times> message \<times> error option) \<times> connection) exec" where
  "read c aborted =
     (let c0 = Listen aborted cancellationListenerCallback c
      in case nc c0 of
           None \<Rightarrow> Panics
         | Some s \<Rightarrow>
             (let ((sizeBuf, n, err), s1) = ReadFull s 4;
                  c1 = c0\<lparr>nc := Some s1\<rparr>
              in case err of
                   Some e \<Rightarrow>
                     (let l = (word_of_nat n :: int32);
                          c2 = (if l = 0 \<and> isCSOTTimeout e
                                then c1\<lparr>awaitRemainingBytes := Some l\<rparr> else c1)
                      in Returns (read_deferred aborted
                                    (None, Lit ''incomplete read of message header'', Some e), c2))
                 | None \<Rightarrow>
                     (case parseWmSizeBytes c1 sizeBuf of
                        Inl e \<Rightarrow> Returns (read_deferred aborted (None, ErrorText e, Some e), c1)
                      | Inr sz \<Rightarrow>
                          (let ((body, n, err), s2) = ReadFull s1 (unat sz - 4);
                               dst = sizeBuf @ body @ replicate (unat sz - 4 - n) 0;
                               c2 = c1\<lparr>nc := Some s2\<rparr>
                           in case err of
                                Some e \<Rightarrow>
                                  (let remainingBytes = sz - 4 - (word_of_nat n :: int32);
                                       c3 = (if 0 <s remainingBytes \<and> isCSOTTimeout e
                                             then c2\<lparr>awaitRemainingBytes := Some remainingBytes\<rparr>
                                             else c2)
                                   in Returns (read_deferred aborted
                                        (Some dst, Lit ''incomplete read of full message'', Some e), c3))
                              | None \<Rightarrow>
                                  Returns (read_deferred aborted (Some dst, Lit [], None), c2)))))"

text \<open>\<^verbatim>\<open>readWireMessage\<close> (lines 447-476).\<close>

definition readWireMessage ::
  "connection \<Rightarrow> go_context \<Rightarrow> bool \<Rightarrow> ((byte list option \<times> error option) \<times> connection) exec" where
  "readWireMessage c ctx aborted =
     (if state c \<noteq> connConnected
      then Returns ((None, Some (ConnectionError (conn_id c) None False (Lit ''connection is closed''))), c)
      else case nc c of
             None \<Rightarrow> Panics
           | Some s \<Rightarrow>
               (case SetReadDeadline s of
                  Some e \<Rightarrow>
                    Returns ((None, Some (ConnectionError (conn_id c) (Some e) False
                                            (Lit ''failed to set read deadline''))), c)
                | None \<Rightarrow>
                    (case read c aborted of
                       Panics \<Rightarrow> Panics
                     | Returns ((dst, errMsg, err), c1) \<Rightarrow>
                         (case err of
                            Some e \<Rightarrow>
                              (let c2 = (if awaitRemainingBytes c1 = None then snd (close c1) else c1)
                               in Returns ((None, Some (ConnectionError (conn_id c2)
                                              (transformNetworkError ctx (Some e) (ctx_has_deadline ctx))
                                              False errMsg)), c2))
                          | None \<Rightarrow> Returns ((dst, None), c1)))))"
subsection \<open>Connecting\<close>

text \<open>
  The calls \<^verbatim>\<open>connect\<close> makes to its collaborators, in the order it makes them.
\<close>

datatype event =
    Call_DialContext
  | Call_TLS_Handshake tls_config
  | Call_ocsp_Verify
  | Call_TLCP_Handshake tlcp_config
  | Call_GetHandshakeInformation
  | Call_FinishHandshake
  | Call_nc_Close

text \<open>
  \<^verbatim>\<open>strings.LastIndex(s, sep)\<close> for a separator of one byte: the index of its last
  occurrence, or -1.
\<close>

fun LastIndex_from :: "string \<Rightarrow> char \<Rightarrow> nat \<Rightarrow> int \<Rightarrow> int" where
  "LastIndex_from [] sep i found = found"
| "LastIndex_from (x # xs) sep i found =
     LastIndex_from xs sep (Suc i) (if x = sep then int i else found)"

definition LastIndex :: "string \<Rightarrow> char \<Rightarrow> int" where
  "LastIndex s sep = LastIndex_from s sep 0 (- 1)"

text \<open>
  The first block of \<^verbatim>\<open>configureTLS\<close> (lines 144-154): an empty server name becomes
  the address up to its last colon, or the whole address when it has no colon.
\<close>

definition ensureServerName :: "string \<Rightarrow> tls_config \<Rightarrow> tls_config" where
  "ensureServerName addr_String tlscfg =
     (if ServerName tlscfg = []
      then (let hostname = addr_String;
                colonPos = LastIndex hostname (CHR '':'');
                colonPos1 = (if colonPos = - 1 then int (length hostname) else colonPos)
            in tlscfg\<lparr>ServerName := take (nat colonPos1) hostname\<rparr>)
      else tlscfg)"

text \<open>
  \<^verbatim>\<open>configureTLS\<close> (lines 137-168). The client that the TLS source makes wraps the
  socket; its handshake is the call of the configuration's \<open>tlsHandshake\<close> on the TLS
  configuration in effect.
\<close>

definition configureTLS ::
  "connectionConfig \<Rightarrow> netconn \<Rightarrow> string \<Rightarrow> tls_config \<Rightarrow> (error + netconn) \<times> event list" where
  "configureTLS cfg nc0 addr_String tlscfg =
     (let tlscfg1 = ensureServerName addr_String tlscfg;
          client = nc0\<lparr>layers := layers nc0 @ [TLS_layer]\<rparr>
      in case tlsHandshake cfg tlscfg1 of
           Some err \<Rightarrow> (Inl err, [Call_TLS_Handshake tlscfg1])
         | None \<Rightarrow>
             (if \<not> InsecureSkipVerify tlscfg1
              then (case ocspVerify cfg of
                      Some ocspErr \<Rightarrow> (Inl ocspErr, [Call_TLS_Handshake tlscfg1, Call_ocsp_Verify])
                    | None \<Rightarrow> (Inr client, [Call_TLS_Handshake tlscfg1, Call_ocsp_Verify]))
              else (Inr client, [Call_TLS_Handshake tlscfg1])))"

text \<open>
  \<^verbatim>\<open>configureTLCP\<close> (lines 170-201): the handshake alone; the server name and the
  revocation check are commented out in the source.
\<close>

definition configureTLCP ::
  "connectionConfig \<Rightarrow> netconn \<Rightarrow> string \<Rightarrow> tlcp_config \<Rightarrow> (error + netconn) \<times> event list" where
  "configureTLCP cfg nc0 addr_String tlcpcfg =
     (let client = nc0\<lparr>layers := layers nc0 @ [TLCP_layer]\<rparr>
      in case tlcpHandshake cfg tlcpcfg of
           Some err \<Rightarrow> (Inl err, [Call_TLCP_Handshake tlcpcfg])
         | None \<Rightarrow> (Inr client, [Call_TLCP_Handshake tlcpcfg]))"

text \<open>\<^verbatim>\<open>setGenerationNumber\<close> (lines 118-122).\<close>

definition setGenerationNumber :: "connection \<Rightarrow> connection" where
  "setGenerationNumber c =
     (case getGenerationFn (config c) of
        None \<Rightarrow> c
      | Some f \<Rightarrow> c\<lparr>generation := f (ServiceID (desc c))\<rparr>)"

text \<open>
  \<^verbatim>\<open>strings.ToLower\<close> on ASCII text, which the names of compressors are: the letters
  A to Z become a to z.
\<close>

definition ToLower :: "string \<Rightarrow> string" where
  "ToLower s =
     map (\<lambda>ch. if 65 \<le> (of_char ch :: nat) \<and> (of_char ch :: nat) \<le> 90
                then char_of (of_char ch + 32 :: nat) else ch) s"

text \<open>
  The default levels \<^verbatim>\<open>wiremessage.DefaultZlibLevel\<close> and
  \<^verbatim>\<open>wiremessage.DefaultZstdLevel\<close> are declared outside this file.
\<close>

record wiremessage_levels =
  DefaultZlibLevel :: int
  DefaultZstdLevel :: int

text \<open>The switch on the matched method (lines 338-353).\<close>

definition setCompressor :: "wiremessage_levels \<Rightarrow> string \<Rightarrow> connection \<Rightarrow> connection" where
  "setCompressor lv method c =
     (let m = ToLower method
      in if m = ''snappy'' then c\<lparr>compressor := CompressorSnappy\<rparr>
         else if m = ''zlib''
         then c\<lparr>compressor := CompressorZLib,
                 zliblevel := (case zlibLevel (config c) of
                                 None \<Rightarrow> DefaultZlibLevel lv | Some l \<Rightarrow> l)\<rparr>
         else if m = ''zstd''
         then c\<lparr>compressor := CompressorZstd,
                 zstdLevel_c := (case zstdLevel (config c) of
                                   None \<Rightarrow> DefaultZstdLevel lv | Some l \<Rightarrow> l)\<rparr>
         else c)"

text \<open>
  The inner loop over the server's methods (lines 333-355): the connection, and whether
  \<^verbatim>\<open>break clientMethodLoop\<close> was reached.
\<close>

fun serverMethodLoop ::
  "wiremessage_levels \<Rightarrow> string \<Rightarrow> string list \<Rightarrow> connection \<Rightarrow> bool \<times> connection" where
  "serverMethodLoop lv method [] c = (False, c)"
| "serverMethodLoop lv method (serverMethod # rest) c =
     (if method \<noteq> serverMethod then serverMethodLoop lv method rest c
      else (True, setCompressor lv method c))"

text \<open>The outer loop over the client's methods (lines 331-356).\<close>

fun clientMethodLoop ::
  "wiremessage_levels \<Rightarrow> string list \<Rightarrow> string list \<Rightarrow> connection \<Rightarrow> connection" where
  "clientMethodLoop lv [] serverMethods c = c"
| "clientMethodLoop lv (method # rest) serverMethods c =
     (case serverMethodLoop lv method serverMethods c of
        (True, c') \<Rightarrow> c'
      | (False, c') \<Rightarrow> clientMethodLoop lv rest serverMethods c')"

definition selectCompressor :: "wiremessage_levels \<Rightarrow> connection \<Rightarrow> connection" where
  "selectCompressor lv c =
     (if length (Compression (desc c)) > 0
      then clientMethodLoop lv (compressors (config c)) (Compression (desc c)) c
      else c)"

text \<open>
  The two handshake calls (lines 286-328): the error left in \<^verbatim>\<open>err\<close>, the connection
  and the calls made.
\<close>

definition connect_handshake ::
  "handshaker_results \<Rightarrow> connection \<Rightarrow> (error option \<times> connection) \<times> event list" where
  "connect_handshake h c =
     (case GetHandshakeInformation h of
        Inl err \<Rightarrow> ((Some err, c), [Call_GetHandshakeInformation])
      | Inr handshakeInfo \<Rightarrow>
          (let c1 = c\<lparr>desc := Description handshakeInfo,
                       serverConnectionID := ServerConnectionID handshakeInfo\<rparr>
           in if loadBalanced (config c1) \<and> ServiceID (desc c1) = None
              then ((Some errLoadBalancedStateMismatch, c1), [Call_GetHandshakeInformation])
              else (let c2 = (if loadBalanced (config c1) then setGenerationNumber c1 else c1)
                    in ((FinishHandshake h, c2),
                        [Call_GetHandshakeInformation, Call_FinishHandshake]))))"

text \<open>
  The secure transports of \<^verbatim>\<open>connect\<close> (lines 252-284), TLS and then TLCP, each
  when it is configured: the error returned, the socket that \<^verbatim>\<open>c.nc\<close> holds at that
  point, and the calls made.
\<close>

definition secure_transport ::
  "connectionConfig \<Rightarrow> netconn \<Rightarrow> string \<Rightarrow> (error option \<times> netconn) \<times> event list" where
  "secure_transport cfg tempNc addr_String =
     (let (r_tls, ev_tls) =
            (case tlsConfig cfg of
               None \<Rightarrow> (Inr tempNc, [])
             | Some tlscfg \<Rightarrow> configureTLS cfg tempNc addr_String tlscfg)
      in case r_tls of
           Inl err \<Rightarrow>
             ((Some (ConnectionError [] (Some err) True
                       (Lit (''failed to configure TLS for '' @ addr_String))), tempNc), ev_tls)
         | Inr tlsNc \<Rightarrow>
             (let (r_tlcp, ev_tlcp) =
                    (case tlcpConfig cfg of
                       None \<Rightarrow> (Inr tlsNc, [])
                     | Some tlcpcfg \<Rightarrow> configureTLCP cfg tlsNc addr_String tlcpcfg)
              in case r_tlcp of
                   Inl err \<Rightarrow>
                     ((Some (ConnectionError [] (Some err) True
                               (Lit (''failed to configure TLCP for '' @ addr_String))), tlsNc),
                      ev_tls @ ev_tlcp)
                 | Inr tlcpNc \<Rightarrow> ((None, tlcpNc), ev_tls @ ev_tlcp)))"

text \<open>
  The body of \<^verbatim>\<open>connect\<close> after the state has been swapped (lines 245-358): the
  returned error, the connection and the calls made.
\<close>

definition connect_body ::
  "wiremessage_levels \<Rightarrow> connection \<Rightarrow> (error option \<times> connection) \<times> event list" where
  "connect_body lv c =
     (case dialer (config c) of
        Inl err \<Rightarrow>
          ((Some (ConnectionError [] (Some err) True (Lit (''failed to connect to '' @ addr c))), c),
           [Call_DialContext])
      | Inr tempNc \<Rightarrow>
          (case secure_transport (config c) tempNc (addr c) of
             ((Some err, nc1), evs) \<Rightarrow> ((Some err, c\<lparr>nc := Some nc1\<rparr>), Call_DialContext # evs)
           | ((None, nc1), evs) \<Rightarrow>
               (let c1 = c\<lparr>nc := Some nc1\<rparr>
                in case handshaker (config c1) of
                     None \<Rightarrow> ((None, c1), Call_DialContext # evs)
                   | Some h \<Rightarrow>
                       (case connect_handshake h c1 of
                          ((Some err, c2), ev_h) \<Rightarrow>
                            ((Some (ConnectionError [] (Some err) True (Lit [])), c2),
                             Call_DialContext # evs @ ev_h)
                        | ((None, c2), ev_h) \<Rightarrow>
                            ((None, selectCompressor lv c2), Call_DialContext # evs @ ev_h)))))"

text \<open>
  \<^verbatim>\<open>connect\<close> (lines 206-359): the swap of the state, the body, and the deferred
  function that disconnects and closes the socket when an error is returned.
\<close>

definition connect ::
  "wiremessage_levels \<Rightarrow> connection \<Rightarrow> (error option \<times> connection) \<times> event list" where
  "connect lv c =
     (if state c \<noteq> connInitialized then ((None, c), [])
      else (case connect_body lv (c\<lparr>state := connConnected\<rparr>) of
              ((None, c'), evs) \<Rightarrow> ((None, c'), evs)
            | ((Some err, c'), evs) \<Rightarrow>
                (case nc c' of
                   None \<Rightarrow> ((Some err, c'\<lparr>state := connDisconnected\<rparr>), evs)
                 | Some s \<Rightarrow>
                     ((Some err, c'\<lparr>state := connDisconnected, nc := Some (snd (nc_Close s))\<rparr>),
                      evs @ [Call_nc_Close]))))"

subsection \<open>The Connection handle\<close>

text \<open>
  The callbacks a handle runs: the four pin-accounting methods of the pool, the pool's
  \<^verbatim>\<open>checkIn\<close>, and \<^verbatim>\<open>cleanupServerFn\<close>. The pool and the server are outside this
  file, so a call of a handle returns the list of the callbacks it ran, in order.
\<close>

datatype callback =
    pinConnectionToCursor
  | unpinConnectionFromCursor
  | pinConnectionToTransaction
  | unpinConnectionFromTransaction
  | pool_checkIn
  | cleanupServer

text \<open>
  The struct \<^verbatim>\<open>Connection\<close> (lines 678-690), without its mutex. \<open>refCount\<close> is a Go
  \<^verbatim>\<open>int\<close>, taken as an unbounded integer; \<open>cleanupServerFn\<close> says whether that
  callback is set.
\<close>

record Connection =
  connection :: "connection option"
  refCount :: int
  cleanupPoolFn :: "callback option"
  cleanupServerFn :: bool
  oidcTokenGenID :: nat

text \<open>\<^verbatim>\<open>Write\<close> (lines 699-706) and \<^verbatim>\<open>Read\<close> (lines 710-717).\<close>

definition Write ::
  "Connection \<Rightarrow> go_context \<Rightarrow> bool \<Rightarrow> byte list \<Rightarrow> (error option \<times> Connection) exec" where
  "Write h ctx aborted wm =
     (case connection h of
        None \<Rightarrow> Returns (Some ErrConnectionClosed, h)
      | Some c \<Rightarrow>
          (case writeWireMessage c ctx aborted wm of
             Panics \<Rightarrow> Panics
           | Returns (err, c') \<Rightarrow> Returns (err, h\<lparr>connection := Some c'\<rparr>)))"

definition Read ::
  "Connection \<Rightarrow> go_context \<Rightarrow> bool \<Rightarrow> ((byte list option \<times> error option) \<times> Connection) exec" where
  "Read h ctx aborted =
     (case connection h of
        None \<Rightarrow> Returns ((None, Some ErrConnectionClosed), h)
      | Some c \<Rightarrow>
          (case readWireMessage c ctx aborted of
             Panics \<Rightarrow> Panics
           | Returns (r, c') \<Rightarrow> Returns (r, h\<lparr>connection := Some c'\<rparr>)))"

text \<open>
  Modelled from the spec: the helpers of the packages \<^verbatim>\<open>wiremessage\<close> and
  \<^verbatim>\<open>bsoncore\<close> that \<^verbatim>\<open>CompressWireMessage\<close> calls are not in this file. A wire
  message starts with a header of four little-endian int32 (length, request id,
  response-to, opcode), 16 bytes, and \<^verbatim>\<open>ReadHeader\<close> fails on fewer bytes (the error
  text of line 733 says so); the compressed envelope is a header with the opcode
  \<^verbatim>\<open>OpCompressed\<close>, then the original opcode, the uncompressed size, the compressor id
  and the compressed payload, with the total length patched in at the end.
\<close>

definition appendi32 :: "byte list \<Rightarrow> int32 \<Rightarrow> byte list" where
  "appendi32 dst x =
     dst @ [ucast x, ucast (drop_bit 8 x), ucast (drop_bit 16 x), ucast (drop_bit 24 x)]"

definition readi32 :: "byte list \<Rightarrow> int32" where
  "readi32 src = LittleEndian_Uint32 (take 4 src)"

definition ReadHeader :: "byte list \<Rightarrow> int32 \<times> int32 \<times> int32 \<times> int32 \<times> byte list \<times> bool" where
  "ReadHeader src =
     (if length src < 16 then (0, 0, 0, 0, src, False)
      else (readi32 src, readi32 (drop 4 src), readi32 (drop 8 src), readi32 (drop 12 src),
            drop 16 src, True))"

definition OpCompressed :: int32 where
  "OpCompressed = 2012"

definition AppendHeaderStart :: "byte list \<Rightarrow> int32 \<Rightarrow> int32 \<Rightarrow> int32 \<Rightarrow> nat \<times> byte list" where
  "AppendHeaderStart dst reqid respto opcode =
     (length dst, appendi32 (appendi32 (appendi32 (appendi32 dst 0) reqid) respto) opcode)"

definition CompressorID_byte :: "CompressorID \<Rightarrow> byte" where
  "CompressorID_byte k =
     (case k of CompressorNoOp \<Rightarrow> 0 | CompressorSnappy \<Rightarrow> 1
              | CompressorZLib \<Rightarrow> 2 | CompressorZstd \<Rightarrow> 3)"

definition UpdateLength :: "byte list \<Rightarrow> nat \<Rightarrow> int32 \<Rightarrow> byte list" where
  "UpdateLength dst idx l = take idx dst @ appendi32 [] l @ drop (idx + 4) dst"

record CompressionOpts =
  opt_Compressor :: CompressorID
  opt_ZlibLevel :: int
  opt_ZstdLevel :: int

text \<open>
  \<^verbatim>\<open>CompressWireMessage\<close> (lines 722-750). The codec \<^verbatim>\<open>driver.CompressPayload\<close> is
  the first argument. A nil slice is the empty list.
\<close>

definition CompressWireMessage ::
  "(byte list \<Rightarrow> CompressionOpts \<Rightarrow> error + byte list) \<Rightarrow> Connection \<Rightarrow> byte list \<Rightarrow> byte list
     \<Rightarrow> (byte list \<times> error option) exec" where
  "CompressWireMessage CompressPayload h src dst =
     (case connection h of
        None \<Rightarrow> Returns (dst, Some ErrConnectionClosed)
      | Some c \<Rightarrow>
          (if compressor c = CompressorNoOp then Returns (dst @ src, None)
           else (case ReadHeader src of
                   (_, reqid, respto, origcode, rem, ok) \<Rightarrow>
                     (if \<not> ok then Returns (dst, Some ErrTooShortToCompress)
                      else (let (idx, dst1) = AppendHeaderStart dst reqid respto OpCompressed;
                                dst2 = appendi32 dst1 origcode;
                                dst3 = appendi32 dst2 (word_of_nat (length rem));
                                dst4 = dst3 @ [CompressorID_byte (compressor c)];
                                opts = \<lparr>opt_Compressor = compressor c,
                                        opt_ZlibLevel = zliblevel c,
                                        opt_ZstdLevel = zstdLevel_c c\<rparr>
                            in case CompressPayload rem opts of
                                 Inl err \<Rightarrow> Returns ([], Some err)
                               | Inr compressed \<Rightarrow>
                                   (let dst5 = dst4 @ compressed
                                    in Returns (UpdateLength dst5 idx
                                                  (word_of_nat (length (drop idx dst5))), None)))))))"

text \<open>\<^verbatim>\<open>Description\<close> (lines 753-760).\<close>

definition Description_of :: "Connection \<Rightarrow> server_description" where
  "Description_of h =
     (case connection h of None \<Rightarrow> empty_description | Some c \<Rightarrow> desc c)"

text \<open>
  \<^verbatim>\<open>cleanupReferences\<close> (lines 786-798): it starts from \<^verbatim>\<open>c.connection.pool\<close>, so it
  panics on a handle without connection.
\<close>

definition cleanupReferences :: "Connection \<Rightarrow> (error option \<times> Connection \<times> callback list) exec" where
  "cleanupReferences h =
     (case connection h of
        None \<Rightarrow> Panics
      | Some c \<Rightarrow>
          (let err = checkIn_result (pool c);
               calls1 = (case cleanupPoolFn h of None \<Rightarrow> [] | Some f \<Rightarrow> [f]);
               calls2 = (if cleanupServerFn h then [cleanupServer] else [])
           in Returns (err,
                h\<lparr>cleanupPoolFn := None, cleanupServerFn := False, connection := None\<rparr>,
                pool_checkIn # calls1 @ calls2)))"

text \<open>\<^verbatim>\<open>Close\<close> (lines 764-772) and \<^verbatim>\<open>Expire\<close> (lines 775-784).\<close>

definition Close :: "Connection \<Rightarrow> (error option \<times> Connection \<times> callback list) exec" where
  "Close h =
     (if connection h = None \<or> refCount h > 0 then Returns (None, h, [])
      else cleanupReferences h)"

definition Expire :: "Connection \<Rightarrow> (error option \<times> Connection \<times> callback list) exec" where
  "Expire h =
     (case connection h of
        None \<Rightarrow> Returns (None, h, [])
      | Some c \<Rightarrow> cleanupReferences (h\<lparr>connection := Some (snd (close c))\<rparr>))"

text \<open>\<^verbatim>\<open>Alive\<close>, \<^verbatim>\<open>ID\<close> and \<^verbatim>\<open>ServerConnectionID\<close> (lines 801-821).\<close>

definition Alive :: "Connection \<Rightarrow> bool" where
  "Alive h = (connection h \<noteq> None)"

definition ID :: "Connection \<Rightarrow> string" where
  "ID h = (case connection h of None \<Rightarrow> ''<closed>'' | Some c \<Rightarrow> conn_id c)"

definition ServerConnectionID_of :: "Connection \<Rightarrow> int option" where
  "ServerConnectionID_of h =
     (case connection h of None \<Rightarrow> None | Some c \<Rightarrow> serverConnectionID c)"

text \<open>
  \<^verbatim>\<open>Stale\<close> (lines 824-828) reads \<^verbatim>\<open>c.connection.pool\<close> and
  \<^verbatim>\<open>DriverConnectionID\<close> (lines 903-905) reads a field of \<^verbatim>\<open>c.connection\<close>, both
  without a check for nil.
\<close>

definition Stale :: "Connection \<Rightarrow> bool exec" where
  "Stale h =
     (case connection h of None \<Rightarrow> Panics | Some c \<Rightarrow> Returns (stale_result (pool c)))"

definition DriverConnectionID :: "Connection \<Rightarrow> int exec" where
  "DriverConnectionID h =
     (case connection h of None \<Rightarrow> Panics | Some c \<Rightarrow> Returns (driverConnectionID c))"

text \<open>\<^verbatim>\<open>pin\<close> (lines 860-875) and \<^verbatim>\<open>unpin\<close> (lines 887-900).\<close>

definition pin ::
  "string \<Rightarrow> callback \<Rightarrow> callback \<Rightarrow> Connection \<Rightarrow> (error option \<times> Connection \<times> callback list) exec" where
  "pin reason updatePoolFn cleanupFn h =
     (if connection h = None then Returns (Some (ErrPinReleased reason), h, [])
      else (let (h1, calls) =
                  (if refCount h = 0
                   then (h\<lparr>cleanupPoolFn := Some cleanupFn\<rparr>, [updatePoolFn])
                   else (h, []))
            in Returns (None, h1\<lparr>refCount := refCount h1 + 1\<rparr>, calls)))"

definition unpin :: "string \<Rightarrow> Connection \<Rightarrow> (error option \<times> Connection \<times> callback list) exec" where
  "unpin reason h =
     (if connection h = None then Returns (None, h, [])
      else if refCount h = 0 then Returns (Some (ErrUnpinNotPinned reason), h, [])
      else Returns (None, h\<lparr>refCount := refCount h - 1\<rparr>, []))"

text \<open>
  \<^verbatim>\<open>PinToCursor\<close> and \<^verbatim>\<open>PinToTransaction\<close> (lines 851-858) take the method values
  from \<^verbatim>\<open>c.connection.pool\<close> before they call \<^verbatim>\<open>pin\<close>, so they panic on a handle
  without connection; \<^verbatim>\<open>UnpinFromCursor\<close> and \<^verbatim>\<open>UnpinFromTransaction\<close>
  (lines 878-885).
\<close>

definition PinToCursor :: "Connection \<Rightarrow> (error option \<times> Connection \<times> callback list) exec" where
  "PinToCursor h =
     (case connection h of
        None \<Rightarrow> Panics
      | Some c \<Rightarrow> pin ''cursor'' pinConnectionToCursor unpinConnectionFromCursor h)"

definition PinToTransaction :: "Connection \<Rightarrow> (error option \<times> Connection \<times> callback list) exec" where
  "PinToTransaction h =
     (case connection h of
        None \<Rightarrow> Panics
      | Some c \<Rightarrow> pin ''transaction'' pinConnectionToTransaction unpinConnectionFromTransaction h)"

definition UnpinFromCursor :: "Connection \<Rightarrow> (error option \<times> Connection \<times> callback list) exec" where
  "UnpinFromCursor h = unpin ''cursor'' h"

definition UnpinFromTransaction :: "Connection \<Rightarrow> (error option \<times> Connection \<times> callback list) exec" where
  "UnpinFromTransaction h = unpin ''transaction'' h"

subsection \<open>Sequences of pin and unpin calls\<close>

datatype pin_call =
  Call_PinToCursor | Call_PinToTransaction | Call_UnpinFromCursor | Call_UnpinFromTransaction

fun do_call :: "pin_call \<Rightarrow> Connection \<Rightarrow> (error option \<times> Connection \<times> callback list) exec" where
  "do_call Call_PinToCursor h = PinToCursor h"
| "do_call Call_PinToTransaction h = PinToTransaction h"
| "do_call Call_UnpinFromCursor h = UnpinFromCursor h"
| "do_call Call_UnpinFromTransaction h = UnpinFromTransaction h"

text \<open>
  A sequence of calls on a handle, whatever errors they return: the handle at the end,
  the callbacks run, in order, and the pin count after each call.
\<close>

fun run_calls :: "pin_call list \<Rightarrow> Connection \<Rightarrow> (Connection \<times> callback list \<times> int list) exec" where
  "run_calls [] h = Returns (h, [], [])"
| "run_calls (x # xs) h =
     (case do_call x h of
        Panics \<Rightarrow> Panics
      | Returns (err, h1, calls) \<Rightarrow>
          (case run_calls xs h1 of
             Panics \<Rightarrow> Panics
           | Returns (h2, calls2, counts) \<Rightarrow> Returns (h2, calls @ calls2, refCount h1 # counts)))"

text \<open>The number of steps from \<open>a\<close> to \<open>b\<close> between neighbours of a list of counts.\<close>

fun transitions :: "int \<Rightarrow> int \<Rightarrow> int list \<Rightarrow> nat" where
  "transitions a b (x # y # ys) = (if x = a \<and> y = b then 1 else 0) + transitions a b (y # ys)"
| "transitions a b _ = 0"

definition is_pin_accounting :: "callback \<Rightarrow> bool" where
  "is_pin_accounting f = (f = pinConnectionToCursor \<or> f = pinConnectionToTransaction)"

definition is_pin_cleanup :: "callback \<Rightarrow> bool" where
  "is_pin_cleanup f = (f = unpinConnectionFromCursor \<or> f = unpinConnectionFromTransaction)"

subsection \<open>Example values\<close>

definition example_socket :: "byte list \<Rightarrow> error \<Rightarrow> netconn" where
  "example_socket bs e =
     \<lparr>nc_closed = False, layers = [], incoming = bs, incoming_end = e, written = [],
      SetReadDeadline = None, SetWriteDeadline = None, Write_result = None, Close_result = None\<rparr>"

definition example_config :: connectionConfig where
  "example_config =
     \<lparr>loadBalanced = False, getGenerationFn = None,
      dialer = Inr (example_socket [] ErrEOF),
      tlsConfig = None, tlsHandshake = (\<lambda>_. None), ocspVerify = None,
      tlcpConfig = None, tlcpHandshake = (\<lambda>_. None),
      handshaker = None, compressors = [], zlibLevel = None, zstdLevel = None\<rparr>"

definition example_connection :: "byte list \<Rightarrow> error \<Rightarrow> connection" where
  "example_connection bs e =
     \<lparr>state = connConnected, conn_id = ''localhost:27017[-2]'', nc = Some (example_socket bs e),
      addr = ''localhost:27017'', desc = empty_description, compressor = CompressorNoOp,
      zliblevel = 0, zstdLevel_c = 0, config = example_config, serverConnectionID = None,
      driverConnectionID = 0, generation = 0, awaitRemainingBytes = None,
      pool = \<lparr>checkIn_result = None, stale_result = False\<rparr>\<rparr>"

definition background :: go_context where
  "background = \<lparr>ctx_Err = None, ctx_has_deadline = False\<rparr>"

definition example_levels :: wiremessage_levels where
  "example_levels = \<lparr>DefaultZlibLevel = 6, DefaultZstdLevel = 6\<rparr>"

definition example_handshaker :: "string option \<Rightarrow> handshaker_results" where
  "example_handshaker sid =
     \<lparr>GetHandshakeInformation =
        Inr \<lparr>Description = \<lparr>ServiceID = sid, MaxMessageSize = 48000000,
                                Compression = [''zlib'', ''snappy'']\<rparr>,
             ServerConnectionID = Some 7\<rparr>,
      FinishHandshake = None\<rparr>"

definition example_initialized :: "bool \<Rightarrow> string option \<Rightarrow> connection" where
  "example_initialized lb sid =
     (example_connection [] ErrEOF)
       \<lparr>state := connInitialized, nc := None,
        config := example_config
          \<lparr>loadBalanced := lb, handshaker := Some (example_handshaker sid),
           compressors := [''zstd'', ''zlib'', ''snappy'']\<rparr>\<rparr>"

definition example_tls :: tls_config where
  "example_tls = \<lparr>ServerName = [], InsecureSkipVerify = False\<rparr>"

definition example_tlcp :: tlcp_config where
  "example_tlcp = \<lparr>tlcp_ServerName = [], tlcp_InsecureSkipVerify = False\<rparr>"

definition example_handle :: Connection where
  "example_handle =
     \<lparr>connection = Some (example_connection [] ErrEOF), refCount = 0, cleanupPoolFn = None,
      cleanupServerFn = True, oidcTokenGenID = 0\<rparr>"

definition example_codec :: "byte list \<Rightarrow> CompressionOpts \<Rightarrow> error + byte list" where
  "example_codec payload opts = Inr payload"

definition example_zlib_handle :: Connection where
  "example_zlib_handle =
     example_handle\<lparr>connection := Some ((example_connection [] ErrEOF)
       \<lparr>compressor := CompressorZLib, zliblevel := 6\<rparr>)\<rparr>"


section \<open>Properties\<close>

subsection \<open>Facts about words, the socket, reading and writing\<close>

lemma ReadFull_enough:
  "0 < k \<Longrightarrow> k \<le> length (incoming s) \<Longrightarrow>
   ReadFull s k = ((take k (incoming s), k, None), s\<lparr>incoming := drop k (incoming s)\<rparr>)"
  by (simp add: ReadFull_def)

lemma ReadFull_short:
  "length (incoming s) < k \<Longrightarrow>
   ReadFull s k = ((incoming s, length (incoming s),
             Some (case incoming_end s of
                     ErrEOF \<Rightarrow> (if incoming s = [] then ErrEOF else ErrUnexpectedEOF)
                   | e \<Rightarrow> e)), s\<lparr>incoming := []\<rparr>)"
  by (simp add: ReadFull_def)

lemma parseWmSizeBytes_desc:
  "desc c' = desc c \<Longrightarrow> parseWmSizeBytes c' bs = parseWmSizeBytes c bs"
  by (simp add: parseWmSizeBytes_def Let_def)

lemma desc_close [simp]: "desc (snd (close c)) = desc c"
  by (simp add: close_def nc_Close_def split: option.splits)

lemma nc_close: "nc (snd (close c)) = (if state c = connConnected then map_option (\<lambda>s. s\<lparr>nc_closed := True\<rparr>) (nc c) else nc c)"
  by (simp add: close_def nc_Close_def split: option.splits)

lemma nc_Listen:
  "nc c = Some s \<Longrightarrow> \<exists>s'. nc (Listen aborted cancellationListenerCallback c) = Some s' \<and> incoming s' = incoming s \<and> incoming_end s' = incoming_end s \<and> Write_result s' = Write_result s"
  by (auto simp add: Listen_def cancellationListenerCallback_def nc_close)

lemma desc_Listen [simp]: "desc (Listen aborted cancellationListenerCallback c) = desc c"
  by (simp add: Listen_def cancellationListenerCallback_def)

lemma parse_nc_update [simp]:
  "parseWmSizeBytes (c\<lparr>nc := x\<rparr>) bs = parseWmSizeBytes c bs"
  by (rule parseWmSizeBytes_desc) simp

lemma parse_Listen [simp]:
  "parseWmSizeBytes (Listen aborted cancellationListenerCallback c) bs = parseWmSizeBytes c bs"
  by (rule parseWmSizeBytes_desc) simp

lemma await_Listen [simp]:
  "awaitRemainingBytes (Listen aborted cancellationListenerCallback c) = awaitRemainingBytes c"
  by (simp add: Listen_def cancellationListenerCallback_def close_def nc_Close_def split: option.splits)

lemma parse100: "MaxMessageSize (desc c) = 0 \<or> 100 \<le> MaxMessageSize (desc c) \<Longrightarrow> parseWmSizeBytes c [100,0,0,0] = Inr 100"
  apply (simp add: parseWmSizeBytes_def defaultMaxMessageSize_def Let_def)
  by (auto simp: word_sless_alt)

lemma sint32_shift: "sint (w :: 32 word) = (uint w + 2 ^ 31) mod 2 ^ 32 - 2 ^ 31"
  by (simp add: sint_uint signed_take_bit_eq_take_bit_shift take_bit_eq_mod)

lemma sint32_cases:
  "sint (w :: 32 word) = (if uint w < 2 ^ 31 then uint w else uint w - 2 ^ 32)"
proof -
  have b: "0 \<le> uint w" "uint w < 2 ^ 32"
    using uint_lt2p [of w] by simp_all
  show ?thesis
  proof (cases "uint w < 2 ^ 31")
    case True
    then have "(uint w + 2 ^ 31) mod 2 ^ 32 = uint w + 2 ^ 31"
      using b by (intro mod_pos_pos_trivial) simp_all
    then show ?thesis using True by (simp add: sint32_shift)
  next
    case False
    have "(uint w - 2 ^ 31) mod 2 ^ 32 = uint w - 2 ^ 31"
      using b False by (intro mod_pos_pos_trivial) simp_all
    moreover have "(uint w + 2 ^ 31) mod 2 ^ 32 = ((uint w - 2 ^ 31) + 2 ^ 32) mod 2 ^ 32"
      by (simp add: add.commute)
    ultimately have "(uint w + 2 ^ 31) mod 2 ^ 32 = uint w - 2 ^ 31"
      by (simp only: mod_add_self2)
    then show ?thesis using False by (simp add: sint32_shift)
  qed
qed

lemma size_not_small:
  fixes sz :: "32 word"
  assumes "\<not> sz <s 4"
  shows "4 \<le> uint sz \<and> uint sz < 2 ^ 31 \<and> sint sz = uint sz"
proof -
  have b: "0 \<le> uint sz" "uint sz < 2 ^ 32"
    using uint_lt2p [of sz] by simp_all
  have a: "4 \<le> sint sz" using assms by (simp add: word_sless_alt)
  have c: "uint sz < 2 ^ 31" 
    using a b by (simp add: sint32_cases split: if_splits)
  then have "sint sz = uint sz" by (simp add: sint32_cases)
  then show ?thesis using a c by simp
qed

lemma prefix_count_nonzero: "0 < n \<Longrightarrow> n < 4 \<Longrightarrow> (word_of_nat n :: 32 word) \<noteq> 0"
  by (simp add: word_of_nat_eq_0_iff dvd_eq_mod_eq_0)

lemma remaining_pos:
  fixes sz :: "32 word"
  assumes "4 \<le> uint sz" "uint sz < 2 ^ 31" "n < unat sz - 4"
  shows "0 <s sz - 4 - word_of_nat n \<and> unat (sz - 4 - word_of_nat n) = unat sz - 4 - n"
proof -
  have us: "uint sz = int (unat sz)" by (rule uint_nat)
  have n: "unat (word_of_nat n :: 32 word) = n"
    using assms by (intro le_unat_uoi [of n sz]) simp
  have four: "(4 :: 32 word) \<le> sz"
    using assms(1) by (simp add: word_le_def)
  have s4: "unat (sz - 4) = unat sz - 4"
    using four by (simp add: unat_sub)
  have le: "(word_of_nat n :: 32 word) \<le> sz - 4"
    using assms n s4 by (simp add: word_le_nat_alt)
  have u: "unat (sz - 4 - word_of_nat n) = unat sz - 4 - n"
    using le n s4 by (simp add: unat_sub)
  have ui: "uint (sz - 4 - word_of_nat n) = int (unat sz - 4 - n)"
    using u by (metis uint_nat)
  have "int (unat sz - 4 - n) \<le> int (unat sz)" by (intro of_nat_mono) simp
  then have lt: "int (unat sz - 4 - n) < 2 ^ 31"
    using assms(2) us by linarith
  have "0 < unat sz - 4 - n"
    using assms(3) by arith
  then have pos: "0 < int (unat sz - 4 - n)"
    by (simp only: of_nat_0_less_iff)
  have e: "sint (sz - 4 - word_of_nat n) = int (unat sz - 4 - n)"
    using lt ui by (simp add: sint32_cases)
  from pos have "sint (0 :: 32 word) < sint (sz - 4 - word_of_nat n)"
    by (simp only: e sint_0)
  then have "0 <s sz - 4 - word_of_nat n"
    by (simp only: word_sless_alt)
  then show ?thesis using u by simp
qed

lemma read_prefix_partial:
  assumes "nc c = Some s" "0 < length (incoming s)" "length (incoming s) < 4" "incoming_end s = NetTimeout"
  shows "read c False = Returns ((None, Lit ''incomplete read of message header'', Some NetTimeout),
           c\<lparr>nc := Some (s\<lparr>incoming := []\<rparr>)\<rparr>)"
proof -
  have rf: "ReadFull s 4 = ((incoming s, length (incoming s), Some NetTimeout), s\<lparr>incoming := []\<rparr>)"
    using assms by (simp add: ReadFull_short)
  have nz: "(word_of_nat (length (incoming s)) :: int32) \<noteq> 0"
    using assms by (intro prefix_count_nonzero) simp_all
  show ?thesis
    using assms(1) nz by (simp add: read_def Listen_def rf read_deferred_def)
qed

lemma read_parse_error:
  assumes "nc c = Some s" "4 \<le> length (incoming s)"
    and "parseWmSizeBytes c (take 4 (incoming s)) = Inl e"
  shows "\<exists>c'. read c aborted = Returns ((None, ErrorText e, Some e), c')
            \<and> map_option incoming (nc c') = Some (drop 4 (incoming s))
            \<and> awaitRemainingBytes c' = awaitRemainingBytes c"
proof -
  obtain s0 where s0: "nc (Listen aborted cancellationListenerCallback c) = Some s0"
      "incoming s0 = incoming s"
    using nc_Listen [OF assms(1)] by blast
  have rf: "ReadFull s0 4 = ((take 4 (incoming s), 4, None), s0\<lparr>incoming := drop 4 (incoming s)\<rparr>)"
    using assms(2) s0 by (simp add: ReadFull_enough)
  show ?thesis
    using assms(3) by (simp add: read_def s0(1) rf read_deferred_def)
qed

lemma read_body_timeout:
  assumes "nc c = Some s" "4 \<le> length (incoming s)"
    and "parseWmSizeBytes c (take 4 (incoming s)) = Inr sz"
    and "length (incoming s) < unat sz" "incoming_end s = NetTimeout"
  shows "\<exists>dst. read c False = Returns ((Some dst, Lit ''incomplete read of full message'', Some NetTimeout),
           c\<lparr>nc := Some (s\<lparr>incoming := []\<rparr>),
             awaitRemainingBytes := Some (sz - 4 - word_of_nat (length (incoming s) - 4))\<rparr>)"
proof -
  let ?s1 = "s\<lparr>incoming := drop 4 (incoming s)\<rparr>"
  have rf: "ReadFull s 4 = ((take 4 (incoming s), 4, None), ?s1)"
    using assms(2) by (simp add: ReadFull_enough)
  have ns: "\<not> sz <s 4"
    using assms(3) by (auto simp: parseWmSizeBytes_def Let_def split: if_splits)
  have lt: "length (incoming ?s1) < unat sz - 4"
    using assms(2,4) by simp
  have rf2: "ReadFull ?s1 (unat sz - 4) =
      ((drop 4 (incoming s), length (incoming s) - 4, Some NetTimeout), s\<lparr>incoming := []\<rparr>)"
    using ReadFull_short [OF lt] assms(5) by simp
  have "length (incoming s) - 4 < unat sz - 4"
    using assms(2,4) by simp
  moreover have "4 \<le> uint sz" "uint sz < 2 ^ 31"
    using size_not_small [OF ns] by simp_all
  ultimately have pos: "0 <s sz - 4 - word_of_nat (length (incoming s) - 4)"
    using remaining_pos by blast
  show ?thesis
    using pos assms(1,3) by (simp add: read_def Listen_def rf rf2 read_deferred_def isCSOTTimeout_def)
qed

lemma read_success:
  assumes "nc c = Some s" "4 \<le> length (incoming s)"
    and "parseWmSizeBytes c (take 4 (incoming s)) = Inr sz"
    and "unat sz \<le> length (incoming s)"
  shows "\<exists>c'. read c aborted =
           Returns (read_deferred aborted (Some (take (unat sz) (incoming s)), Lit [], None), c')
         \<and> map_option incoming (nc c') = Some (drop (unat sz) (incoming s))"
proof -
  obtain s0 where s0: "nc (Listen aborted cancellationListenerCallback c) = Some s0"
      "incoming s0 = incoming s"
    using nc_Listen [OF assms(1)] by blast
  let ?s1 = "s0\<lparr>incoming := drop 4 (incoming s)\<rparr>"
  have rf: "ReadFull s0 4 = ((take 4 (incoming s), 4, None), ?s1)"
    using assms(2) s0 by (simp add: ReadFull_enough)
  have ns: "\<not> sz <s 4"
    using assms(3) by (auto simp: parseWmSizeBytes_def Let_def split: if_splits)
  have "4 \<le> uint sz" using size_not_small [OF ns] by simp
  moreover have "uint sz = int (unat sz)" by (rule uint_nat)
  ultimately have four: "4 \<le> unat sz" by linarith
  have rf2: "ReadFull ?s1 (unat sz - 4) =
      ((take (unat sz - 4) (drop 4 (incoming s)), unat sz - 4, None),
       s0\<lparr>incoming := drop (unat sz) (incoming s)\<rparr>)"
  proof (cases "unat sz = 4")
    case True
    then show ?thesis by (simp add: ReadFull_def)
  next
    case False
    then have "0 < unat sz - 4" "unat sz - 4 \<le> length (incoming ?s1)"
      using four assms(4) by simp_all
    then show ?thesis
      using four by (simp add: ReadFull_enough)
  qed
  have "take (4 + (unat sz - 4)) (incoming s) =
      take 4 (incoming s) @ take (unat sz - 4) (drop 4 (incoming s))"
    by (rule take_add)
  then have dst: "take 4 (incoming s) @ take (unat sz - 4) (drop 4 (incoming s)) = take (unat sz) (incoming s)"
    using four by simp
  show ?thesis
    using assms(3) dst by (simp add: read_def s0(1) rf rf2)
qed

lemma read_deferred_aborted: "read_deferred True r = (bs, m, e) \<Longrightarrow> e \<noteq> None"
  by (cases r) (auto simp: read_deferred_def split: if_splits)

lemma read_aborted_fails:
  assumes "read c True = Returns ((bs, m, e), c')"
  shows "e \<noteq> None"
  using assms
  by (auto simp: read_def Let_def split: option.splits prod.splits sum.splits dest: read_deferred_aborted)

lemma write_ok:
  assumes "nc c = Some s" "Write_result s = None"
  shows "\<exists>c'. write_conn c aborted wm = Returns (if aborted then Some Canceled else None, c')"
proof -
  obtain s0 where s0: "nc (Listen aborted cancellationListenerCallback c) = Some s0"
      "Write_result s0 = Write_result s"
    using nc_Listen [OF assms(1)] by blast
  show ?thesis
    using assms(2) s0 by (simp add: write_conn_def nc_Write_def)
qed

lemma write_aborted_fails:
  assumes "write_conn c True wm = Returns (e, c')"
  shows "e \<noteq> None"
  using assms
  by (auto simp: write_conn_def Let_def split: option.splits prod.splits if_splits)

lemma incoming_close [simp]:
  "map_option incoming (nc (snd (close c))) = map_option incoming (nc c)"
  by (cases "nc c") (simp_all add: close_def nc_Close_def)

lemma parse_malformed:
  "sint (LittleEndian_Uint32 bs) < 4 \<Longrightarrow>
   parseWmSizeBytes c bs = Inl (MalformedLength (LittleEndian_Uint32 bs))"
  by (simp add: parseWmSizeBytes_def Let_def word_sless_alt)

lemma parse_too_large:
  assumes "4 \<le> sint (LittleEndian_Uint32 bs)"
    and "uint (if MaxMessageSize (desc c) = 0 then 48000000 else MaxMessageSize (desc c))
           < sint (LittleEndian_Uint32 bs)"
  shows "parseWmSizeBytes c bs = Inl errResponseTooLarge"
proof -
  let ?sz = "LittleEndian_Uint32 bs"
  have ns: "\<not> ?sz <s 4" using assms(1) by (simp add: word_sless_alt)
  then have "sint ?sz = uint ?sz" using size_not_small by blast
  then have "(if MaxMessageSize (desc c) = 0 then 48000000 else MaxMessageSize (desc c)) < ?sz"
    using assms(2) by (simp only: word_less_def)
  then show ?thesis
    using ns by (simp add: parseWmSizeBytes_def Let_def defaultMaxMessageSize_def split: if_splits)
qed

lemma parse_fails:
  assumes "sint (LittleEndian_Uint32 bs) < 4 \<or>
     uint (if MaxMessageSize (desc c) = 0 then 48000000 else MaxMessageSize (desc c))
           < sint (LittleEndian_Uint32 bs)"
  shows "\<exists>e. parseWmSizeBytes c bs = Inl e"
  using assms parse_malformed [of bs c] parse_too_large [of bs c]
  by (cases "sint (LittleEndian_Uint32 bs) < 4") auto

lemma readWireMessage_parse_error:
  assumes "nc c = Some s" "4 \<le> length (incoming s)"
    and "parseWmSizeBytes c (take 4 (incoming s)) = Inl e"
    and "state c = connConnected" "SetReadDeadline s = None"
  shows "\<exists>e' c'. readWireMessage c ctx aborted = Returns ((None, Some e'), c')
            \<and> map_option incoming (nc c') = Some (drop 4 (incoming s))"
proof -
  obtain c1 where c1: "read c aborted = Returns ((None, ErrorText e, Some e), c1)"
      "map_option incoming (nc c1) = Some (drop 4 (incoming s))"
    using read_parse_error [OF assms(1-3)] by blast
  define c2 where "c2 = (if awaitRemainingBytes c1 = None then snd (close c1) else c1)"
  have inc: "map_option incoming (nc c2) = Some (drop 4 (incoming s))"
  proof (cases "awaitRemainingBytes c1 = None")
    case True
    then have "c2 = snd (close c1)" by (simp add: c2_def)
    then show ?thesis using c1(2) by (simp only: incoming_close)
  next
    case False
    then have "c2 = c1" unfolding c2_def by auto
    then show ?thesis using c1(2) by (simp only:)
  qed
  have "readWireMessage c ctx aborted =
      Returns ((None, Some (ConnectionError (conn_id c2)
                 (transformNetworkError ctx (Some e) (ctx_has_deadline ctx)) False (ErrorText e))), c2)"
    using assms(1,4,5) c1(1) by (simp add: readWireMessage_def Let_def c2_def)
  then show ?thesis
    using inc by blast
qed

lemma conn_id_close [simp]: "conn_id (snd (close c)) = conn_id c"
  by (simp add: close_def nc_Close_def split: option.splits)

lemma state_close [simp]: "state (snd (close c)) = connDisconnected \<longleftrightarrow> state c \<noteq> connInitialized"
  by (cases "state c") (simp_all add: close_def nc_Close_def split: option.splits)

lemma await_close [simp]: "awaitRemainingBytes (snd (close c)) = awaitRemainingBytes c"
  by (simp add: close_def nc_Close_def split: option.splits)

lemma transform_Canceled [simp]: "transformNetworkError ctx (Some Canceled) d = Some Canceled"
  by (simp add: transformNetworkError_def is_net_timeout_def)

lemma read_prefix_timeout:
  assumes "nc c = Some s" "incoming s = []" "incoming_end s = NetTimeout"
  shows "read c False = Returns ((None, Lit ''incomplete read of message header'', Some NetTimeout),
           c\<lparr>nc := Some (s\<lparr>incoming := []\<rparr>), awaitRemainingBytes := Some 0\<rparr>)"
  using assms
  by (simp add: read_def Listen_def ReadFull_def isCSOTTimeout_def read_deferred_def)

lemma conn_id_Listen [simp]: "conn_id (Listen aborted cancellationListenerCallback c) = conn_id c"
  by (simp add: Listen_def cancellationListenerCallback_def)

lemma write_conn_id:
  "write_conn c aborted wm = Returns (e, c') \<Longrightarrow> conn_id c' = conn_id c"
  by (auto simp: write_conn_def Let_def split: option.splits prod.splits)

lemma writeWireMessage_cancelled:
  assumes "state c = connConnected" "nc c = Some s" "SetWriteDeadline s = None"
    and "Write_result s = None"
  shows "\<exists>c'. writeWireMessage c ctx True wm =
           Returns (Some (ConnectionError (conn_id c) (Some Canceled) False
                      (Lit ''unable to write wire message to network'')), c')"
proof -
  obtain c1 where c1: "write_conn c True wm = Returns (Some Canceled, c1)"
    using write_ok [OF assms(2,4), of True wm] by auto
  have "conn_id c1 = conn_id c" using write_conn_id [OF c1] .
  then show ?thesis
    using assms(1,2,3) c1 by (simp add: writeWireMessage_def Let_def)
qed

lemma read_conn_id:
  "read c aborted = Returns (r, c') \<Longrightarrow> conn_id c' = conn_id c"
  by (auto simp: read_def Let_def split: option.splits prod.splits sum.splits if_splits)

lemma readWireMessage_cancelled:
  assumes "state c = connConnected" "nc c = Some s" "SetReadDeadline s = None"
    and "4 \<le> length (incoming s)" "parseWmSizeBytes c (take 4 (incoming s)) = Inr sz"
    and "unat sz \<le> length (incoming s)"
  shows "\<exists>c'. readWireMessage c ctx True =
           Returns ((None, Some (ConnectionError (conn_id c) (Some Canceled) False
                      (Lit ''unable to read server response''))), c')"
proof -
  obtain c1 where c1: "read c True = Returns ((Some (take (unat sz) (incoming s)),
        Lit ''unable to read server response'', Some Canceled), c1)"
    using read_success [OF assms(2,4,5,6), of True] by (auto simp: read_deferred_def)
  have "conn_id c1 = conn_id c" using read_conn_id [OF c1] .
  then show ?thesis
    using assms(1,2,3) c1 by (simp add: readWireMessage_def Let_def)
qed

lemma transform_ctx_canceled:
  "ctx_Err ctx = Some ctx_Canceled \<Longrightarrow> transformNetworkError ctx (Some e) d = Some Canceled"
  by (simp add: transformNetworkError_def)

lemma read_returns:
  assumes "nc c = Some s"
  shows "\<exists>bs m e c'. read c aborted = Returns ((bs, m, e), c')"
proof -
  obtain s0 where "nc (Listen aborted cancellationListenerCallback c) = Some s0"
    using nc_Listen [OF assms] by blast
  then have "read c aborted \<noteq> Panics"
    by (auto simp: read_def Let_def split: prod.splits option.splits sum.splits)
  then obtain r c' where "read c aborted = Returns (r, c')"
    by (cases "read c aborted") auto
  then show ?thesis by (cases r) auto
qed

lemma readWireMessage_aborted:
  assumes "state c = connConnected" "nc c = Some s" "SetReadDeadline s = None"
    and "ctx_Err ctx = Some ctx_Canceled"
  shows "\<exists>m c'. readWireMessage c ctx True =
           Returns ((None, Some (ConnectionError (conn_id c) (Some Canceled) False m)), c')"
proof -
  obtain bs m e c1 where r: "read c True = Returns ((bs, m, e), c1)"
    using read_returns [OF assms(2)] by blast
  then obtain e' where e: "e = Some e'"
    using read_aborted_fails [OF r] by auto
  have i: "conn_id c1 = conn_id c" using read_conn_id [OF r] .
  show ?thesis
    using assms(1,2,3) r e i transform_ctx_canceled [OF assms(4)]
    by (simp add: readWireMessage_def Let_def)
qed

lemma write_returns:
  assumes "nc c = Some s"
  shows "\<exists>e c'. write_conn c aborted wm = Returns (e, c')"
proof -
  obtain s0 where "nc (Listen aborted cancellationListenerCallback c) = Some s0"
    using nc_Listen [OF assms] by blast
  then have "write_conn c aborted wm \<noteq> Panics"
    by (auto simp: write_conn_def Let_def split: prod.splits option.splits)
  then show ?thesis
    by (cases "write_conn c aborted wm") auto
qed

lemma writeWireMessage_aborted:
  assumes "state c = connConnected" "nc c = Some s" "SetWriteDeadline s = None"
    and "ctx_Err ctx = Some ctx_Canceled"
  shows "\<exists>c'. writeWireMessage c ctx True wm =
           Returns (Some (ConnectionError (conn_id c) (Some Canceled) False
                      (Lit ''unable to write wire message to network'')), c')"
proof -
  obtain e c1 where r: "write_conn c True wm = Returns (e, c1)"
    using write_returns [OF assms(2)] by blast
  then obtain e' where e: "e = Some e'"
    using write_aborted_fails [OF r] by auto
  have i: "conn_id c1 = conn_id c" using write_conn_id [OF r] .
  show ?thesis
    using assms(1,2,3) r e i transform_ctx_canceled [OF assms(4)]
    by (simp add: writeWireMessage_def Let_def)
qed

subsection \<open>Cancellation after a successful socket operation (C1)\<close>

text \<open>
  Claim C1. When the listener has aborted, a write whose socket write returned no error
  and a read whose socket reads delivered a whole message both return
  \<^verbatim>\<open>context.Canceled\<close>, and no write or read returns a nil error;
  \<^verbatim>\<open>writeWireMessage\<close> and \<^verbatim>\<open>readWireMessage\<close> surface it wrapped in a
  \<^verbatim>\<open>ConnectionError\<close>. With the context cancelled, as it is when the listener has
  aborted, they surface \<^verbatim>\<open>context.Canceled\<close> whatever the socket did.
\<close>

theorem C1_cancellation_overrides_success:
  "(nc c = Some s \<and> Write_result s = None \<longrightarrow>
      (\<exists>c'. write_conn c True wm = Returns (Some Canceled, c')))
   \<and> (\<forall>e c'. write_conn c True wm = Returns (e, c') \<longrightarrow> e \<noteq> None)
   \<and> (nc c = Some s \<and> 4 \<le> length (incoming s)
        \<and> parseWmSizeBytes c (take 4 (incoming s)) = Inr sz \<and> unat sz \<le> length (incoming s) \<longrightarrow>
      (\<exists>c'. read c True =
          Returns ((Some (take (unat sz) (incoming s)), Lit ''unable to read server response'',
                    Some Canceled), c')))
   \<and> (\<forall>bs m e c'. read c True = Returns ((bs, m, e), c') \<longrightarrow> e \<noteq> None)
   \<and> (state c = connConnected \<and> nc c = Some s \<and> SetWriteDeadline s = None
        \<and> Write_result s = None \<longrightarrow>
      (\<exists>c'. writeWireMessage c ctx True wm =
          Returns (Some (ConnectionError (conn_id c) (Some Canceled) False
                      (Lit ''unable to write wire message to network'')), c')))
   \<and> (state c = connConnected \<and> nc c = Some s \<and> SetReadDeadline s = None
        \<and> 4 \<le> length (incoming s)
        \<and> parseWmSizeBytes c (take 4 (incoming s)) = Inr sz \<and> unat sz \<le> length (incoming s) \<longrightarrow>
      (\<exists>c'. readWireMessage c ctx True =
          Returns ((None, Some (ConnectionError (conn_id c) (Some Canceled) False
                      (Lit ''unable to read server response''))), c')))
   \<and> (state c = connConnected \<and> nc c = Some s \<and> SetWriteDeadline s = None
        \<and> ctx_Err ctx = Some ctx_Canceled \<longrightarrow>
      (\<exists>c'. writeWireMessage c ctx True wm =
          Returns (Some (ConnectionError (conn_id c) (Some Canceled) False
                      (Lit ''unable to write wire message to network'')), c')))
   \<and> (state c = connConnected \<and> nc c = Some s \<and> SetReadDeadline s = None
        \<and> ctx_Err ctx = Some ctx_Canceled \<longrightarrow>
      (\<exists>m c'. readWireMessage c ctx True =
          Returns ((None, Some (ConnectionError (conn_id c) (Some Canceled) False m)), c')))"
proof -
  have w: "nc c = Some s \<and> Write_result s = None \<longrightarrow>
      (\<exists>c'. write_conn c True wm = Returns (Some Canceled, c'))"
    using write_ok [of c s True wm] by simp
  have wn: "\<forall>e c'. write_conn c True wm = Returns (e, c') \<longrightarrow> e \<noteq> None"
    using write_aborted_fails by blast
  have r: "nc c = Some s \<and> 4 \<le> length (incoming s)
        \<and> parseWmSizeBytes c (take 4 (incoming s)) = Inr sz \<and> unat sz \<le> length (incoming s) \<longrightarrow>
      (\<exists>c'. read c True =
          Returns ((Some (take (unat sz) (incoming s)), Lit ''unable to read server response'',
                    Some Canceled), c'))"
    using read_success [of c s sz True] by (auto simp: read_deferred_def)
  have rn: "\<forall>bs m e c'. read c True = Returns ((bs, m, e), c') \<longrightarrow> e \<noteq> None"
    using read_aborted_fails by blast
  show ?thesis
    using w wn r rn writeWireMessage_cancelled [of c s ctx wm]
      readWireMessage_cancelled [of c s sz ctx] writeWireMessage_aborted [of c s ctx wm]
      readWireMessage_aborted [of c s ctx]
    by (intro conjI) blast+
qed

text \<open>The theorem of claim C1 at a message of five bytes.\<close>

theorem C1_witness:
  "(\<exists>c'. write_conn (example_connection [5, 0, 0, 0, 7] ErrEOF) True [1, 2, 3] =
            Returns (Some Canceled, c'))
   \<and> (\<exists>c'. read (example_connection [5, 0, 0, 0, 7] ErrEOF) True =
            Returns ((Some [5, 0, 0, 0, 7], Lit ''unable to read server response'',
                      Some Canceled), c'))"
proof -
  let ?c = "example_connection [5, 0, 0, 0, 7] ErrEOF"
  let ?s = "example_socket [5, 0, 0, 0, 7] ErrEOF"
  have w: "nc ?c = Some ?s \<and> Write_result ?s = None"
    by (simp add: example_connection_def example_socket_def)
  have r: "nc ?c = Some ?s \<and> 4 \<le> length (incoming ?s)
        \<and> parseWmSizeBytes ?c (take 4 (incoming ?s)) = Inr 5
        \<and> unat (5 :: int32) \<le> length (incoming ?s)"
    by (simp add: example_connection_def example_socket_def parseWmSizeBytes_def
        empty_description_def defaultMaxMessageSize_def)
  note t = C1_cancellation_overrides_success [of ?c ?s "[1, 2, 3]" 5 background]
  from t w have "\<exists>c'. write_conn ?c True [1, 2, 3] = Returns (Some Canceled, c')"
    by blast
  moreover from t r have "\<exists>c'. read ?c True =
      Returns ((Some (take (unat (5 :: int32)) (incoming ?s)),
                Lit ''unable to read server response'', Some Canceled), c')"
    by blast
  moreover have "take (unat (5 :: int32)) (incoming ?s) = [5, 0, 0, 0, 7]"
    by (simp add: example_socket_def)
  ultimately show ?thesis by simp
qed

subsection \<open>A timeout after the size prefix (C2)\<close>

text \<open>
  Claim C2. The socket delivers the complete prefix of a message of length 100 and then
  times out before any byte of the body: \<^verbatim>\<open>readWireMessage\<close> fails, the connection
  stays connected with its socket open, and \<open>awaitRemainingBytes\<close> is 96.
\<close>

theorem C2_timeout_after_prefix:
  assumes "state c = connConnected" and "nc c = Some s" and "SetReadDeadline s = None"
    and "incoming s = [100, 0, 0, 0]" and "incoming_end s = NetTimeout"
    and "MaxMessageSize (desc c) = 0 \<or> 100 \<le> MaxMessageSize (desc c)"
  shows "\<exists>c'. readWireMessage c ctx False =
            Returns ((None, Some (ConnectionError (conn_id c)
               (transformNetworkError ctx (Some NetTimeout) (ctx_has_deadline ctx)) False
               (Lit ''incomplete read of full message''))), c')
          \<and> state c' = connConnected
          \<and> (\<exists>s'. nc c' = Some s' \<and> nc_closed s' = nc_closed s)
          \<and> awaitRemainingBytes c' = Some 96"
proof -
  have p: "parseWmSizeBytes c (take 4 (incoming s)) = Inr 100"
    using assms(4,6) by (simp add: parse100)
  have "length (incoming s) < unat (100 :: int32)"
    using assms(4) by simp
  from read_body_timeout [OF assms(2) _ p this assms(5)] assms(4)
  obtain dst where "read c False =
      Returns ((Some dst, Lit ''incomplete read of full message'', Some NetTimeout),
         c\<lparr>nc := Some (s\<lparr>incoming := []\<rparr>), awaitRemainingBytes := Some 96\<rparr>)"
    by auto
  then show ?thesis
    using assms(1,2,3) by (simp add: readWireMessage_def)
qed

text \<open>The theorem of claim C2 on a connection before the handshake.\<close>

theorem C2_witness:
  "\<exists>c'. readWireMessage (example_connection [100, 0, 0, 0] NetTimeout) background False =
            Returns ((None, Some (ConnectionError ''localhost:27017[-2]'' (Some NetTimeout) False
               (Lit ''incomplete read of full message''))), c')
          \<and> state c' = connConnected
          \<and> (\<exists>s'. nc c' = Some s' \<and> \<not> nc_closed s')
          \<and> awaitRemainingBytes c' = Some 96"
  using C2_timeout_after_prefix
          [of "example_connection [100, 0, 0, 0] NetTimeout" "example_socket [100, 0, 0, 0] NetTimeout"
              background]
  by (simp add: example_connection_def example_socket_def empty_description_def background_def
      transformNetworkError_def)

subsection \<open>The checks of the size prefix (C6)\<close>

text \<open>
  Claim C6. When the four bytes of the size prefix have been read, a size below 4 (as an
  int32) makes \<^verbatim>\<open>read\<close> fail with the malformed-length error, and a size of at
  least 4 that exceeds the negotiated maximum message size (48000000 when none is
  negotiated) makes it fail with \<^verbatim>\<open>errResponseTooLarge\<close>. In both cases, and through
  \<^verbatim>\<open>readWireMessage\<close> as well, only the four bytes of the prefix have been taken from
  the socket: no byte of the body is read.
\<close>

theorem C6_size_prefix_rejected:
  assumes "nc c = Some s" and "4 \<le> length (incoming s)"
  shows "let sz = LittleEndian_Uint32 (take 4 (incoming s));
             maxMessageSize = (if MaxMessageSize (desc c) = 0 then 48000000 else MaxMessageSize (desc c))
         in (sint sz < 4 \<longrightarrow>
               (\<exists>c'. read c aborted =
                       Returns ((None, ErrorText (MalformedLength sz), Some (MalformedLength sz)), c')
                   \<and> map_option incoming (nc c') = Some (drop 4 (incoming s))))
          \<and> (4 \<le> sint sz \<and> uint maxMessageSize < sint sz \<longrightarrow>
               (\<exists>c'. read c aborted =
                       Returns ((None, ErrorText errResponseTooLarge, Some errResponseTooLarge), c')
                   \<and> map_option incoming (nc c') = Some (drop 4 (incoming s))))
          \<and> ((sint sz < 4 \<or> uint maxMessageSize < sint sz)
                \<and> state c = connConnected \<and> SetReadDeadline s = None \<longrightarrow>
               (\<exists>e c'. readWireMessage c ctx aborted = Returns ((None, Some e), c')
                   \<and> map_option incoming (nc c') = Some (drop 4 (incoming s))))"
proof -
  let ?bs = "take 4 (incoming s)"
  have a: "sint (LittleEndian_Uint32 ?bs) < 4 \<Longrightarrow>
      \<exists>c'. read c aborted = Returns ((None, ErrorText (MalformedLength (LittleEndian_Uint32 ?bs)),
                 Some (MalformedLength (LittleEndian_Uint32 ?bs))), c')
           \<and> map_option incoming (nc c') = Some (drop 4 (incoming s))"
    using read_parse_error [OF assms parse_malformed] by blast
  have b: "4 \<le> sint (LittleEndian_Uint32 ?bs) \<Longrightarrow>
      uint (if MaxMessageSize (desc c) = 0 then 48000000 else MaxMessageSize (desc c))
           < sint (LittleEndian_Uint32 ?bs) \<Longrightarrow>
      \<exists>c'. read c aborted = Returns ((None, ErrorText errResponseTooLarge, Some errResponseTooLarge), c')
           \<and> map_option incoming (nc c') = Some (drop 4 (incoming s))"
    using read_parse_error [OF assms parse_too_large] by blast
  have c: "sint (LittleEndian_Uint32 ?bs) < 4 \<or>
      uint (if MaxMessageSize (desc c) = 0 then 48000000 else MaxMessageSize (desc c))
           < sint (LittleEndian_Uint32 ?bs) \<Longrightarrow>
      state c = connConnected \<Longrightarrow> SetReadDeadline s = None \<Longrightarrow>
      \<exists>e c'. readWireMessage c ctx aborted = Returns ((None, Some e), c')
                   \<and> map_option incoming (nc c') = Some (drop 4 (incoming s))"
  proof -
    assume h: "sint (LittleEndian_Uint32 ?bs) < 4 \<or>
      uint (if MaxMessageSize (desc c) = 0 then 48000000 else MaxMessageSize (desc c))
           < sint (LittleEndian_Uint32 ?bs)"
      and st: "state c = connConnected" "SetReadDeadline s = None"
    obtain e where "parseWmSizeBytes c ?bs = Inl e"
      using parse_fails [OF h] by blast
    then show ?thesis
      using readWireMessage_parse_error [OF assms _ st] by blast
  qed
  show ?thesis
    unfolding Let_def using a b c by blast
qed

text \<open>The theorem of claim C6 at the sizes 3 and 50331648.\<close>

theorem C6_witness:
  "(\<exists>c'. read (example_connection [3, 0, 0, 0, 9] ErrEOF) False =
           Returns ((None, ErrorText (MalformedLength 3), Some (MalformedLength 3)), c')
         \<and> map_option incoming (nc c') = Some [9])
   \<and> (\<exists>c'. read (example_connection [0, 0, 0, 3, 9] ErrEOF) False =
           Returns ((None, ErrorText errResponseTooLarge, Some errResponseTooLarge), c')
         \<and> map_option incoming (nc c') = Some [9])"
  using C6_size_prefix_rejected
          [of "example_connection [3, 0, 0, 0, 9] ErrEOF" "example_socket [3, 0, 0, 0, 9] ErrEOF"
              False background]
        C6_size_prefix_rejected
          [of "example_connection [0, 0, 0, 3, 9] ErrEOF" "example_socket [0, 0, 0, 3, 9] ErrEOF"
              False background]
  by (simp add: example_connection_def example_socket_def empty_description_def Let_def)

subsection \<open>A timeout on the size prefix (C7)\<close>

text \<open>
  Claim C7, as amended. The read of the size prefix fails with a timeout. When no byte of
  the prefix had been read, \<open>awaitRemainingBytes\<close> becomes 0 and the connection is left
  connected with its socket open. When one to three bytes had been read, the marker is
  left as it was, and a connection without a marker is closed.
\<close>

theorem C7_prefix_timeout:
  assumes "state c = connConnected" and "nc c = Some s" and "SetReadDeadline s = None"
    and "incoming_end s = NetTimeout" and "length (incoming s) < 4"
  shows "\<exists>c'. readWireMessage c ctx False =
            Returns ((None, Some (ConnectionError (conn_id c)
               (transformNetworkError ctx (Some NetTimeout) (ctx_has_deadline ctx)) False
               (Lit ''incomplete read of message header''))), c')
          \<and> (incoming s = [] \<longrightarrow>
                awaitRemainingBytes c' = Some 0 \<and> state c' = connConnected
                \<and> (\<exists>s'. nc c' = Some s' \<and> nc_closed s' = nc_closed s))
          \<and> (incoming s \<noteq> [] \<longrightarrow>
                awaitRemainingBytes c' = awaitRemainingBytes c
                \<and> (awaitRemainingBytes c = None \<longrightarrow>
                      state c' = connDisconnected \<and> (\<exists>s'. nc c' = Some s' \<and> nc_closed s')))"
proof (cases "incoming s = []")
  case True
  then show ?thesis
    using assms by (simp add: readWireMessage_def read_prefix_timeout)
next
  case False
  then have "0 < length (incoming s)" by simp
  from read_prefix_partial [OF assms(2) this assms(5,4)]
  show ?thesis
    using assms(1,2,3) False
    by (simp add: readWireMessage_def Let_def close_def nc_Close_def)
qed

text \<open>The theorem of claim C7 at a socket that times out at once.\<close>

theorem C7_witness:
  "\<exists>c'. readWireMessage (example_connection [] NetTimeout) background False =
            Returns ((None, Some (ConnectionError ''localhost:27017[-2]'' (Some NetTimeout) False
               (Lit ''incomplete read of message header''))), c')
          \<and> awaitRemainingBytes c' = Some 0 \<and> state c' = connConnected
          \<and> (\<exists>s'. nc c' = Some s' \<and> \<not> nc_closed s')"
  using C7_prefix_timeout
          [of "example_connection [] NetTimeout" "example_socket [] NetTimeout" background]
  by (simp add: example_connection_def example_socket_def background_def transformNetworkError_def)

text \<open>
  Claim C7 as stated fails: after one byte of the prefix the timeout leaves no marker and
  \<^verbatim>\<open>readWireMessage\<close> closes the connection.
\<close>

theorem C7_counterexample:
  "readWireMessage (example_connection [100] NetTimeout) background False =
     Returns ((None, Some (ConnectionError ''localhost:27017[-2]'' (Some NetTimeout) False
                 (Lit ''incomplete read of message header''))),
       \<lparr>state = connDisconnected, conn_id = ''localhost:27017[-2]'',
        nc = Some ((example_socket [] NetTimeout)\<lparr>nc_closed := True\<rparr>),
        addr = ''localhost:27017'', desc = empty_description, compressor = CompressorNoOp,
        zliblevel = 0, zstdLevel_c = 0, config = example_config, serverConnectionID = None,
        driverConnectionID = 0, generation = 0, awaitRemainingBytes = None,
        pool = \<lparr>checkIn_result = None, stale_result = False\<rparr>\<rparr>)"
  by (simp add: readWireMessage_def read_def Listen_def ReadFull_def read_deferred_def
      isCSOTTimeout_def close_def nc_Close_def transformNetworkError_def
      example_connection_def example_socket_def background_def Let_def)

subsection \<open>Facts about connect\<close>

lemma ToLower_names:
  "ToLower ''zlib'' = ''zlib''" "ToLower ''zstd'' = ''zstd''" "ToLower ''snappy'' = ''snappy''"
  by (simp_all add: ToLower_def)

lemma serverMethodLoop_eq:
  "serverMethodLoop lv method serverMethods c =
     (if method \<in> set serverMethods then (True, setCompressor lv method c) else (False, c))"
  by (induction serverMethods) auto

lemma clientMethodLoop_eq:
  "clientMethodLoop lv methods serverMethods c =
     (case find (\<lambda>m. m \<in> set serverMethods) methods of
        None \<Rightarrow> c
      | Some m \<Rightarrow> setCompressor lv m c)"
  by (induction methods) (simp_all add: serverMethodLoop_eq)

lemma setCompressor_zlib:
  "ToLower m = ''zlib'' \<Longrightarrow>
   setCompressor lv m c =
     c\<lparr>compressor := CompressorZLib,
       zliblevel := (case zlibLevel (config c) of None \<Rightarrow> DefaultZlibLevel lv | Some l \<Rightarrow> l)\<rparr>"
  by (simp add: setCompressor_def)

lemma setCompressor_zstd:
  "ToLower m = ''zstd'' \<Longrightarrow>
   setCompressor lv m c =
     c\<lparr>compressor := CompressorZstd,
       zstdLevel_c := (case zstdLevel (config c) of None \<Rightarrow> DefaultZstdLevel lv | Some l \<Rightarrow> l)\<rparr>"
  by (simp add: setCompressor_def)

lemma selectCompressor_find:
  "selectCompressor lv c =
     (case find (\<lambda>m. m \<in> set (Compression (desc c))) (compressors (config c)) of
        None \<Rightarrow> c
      | Some m \<Rightarrow> setCompressor lv m c)"
proof (cases "Compression (desc c) = []")
  case True
  then have "find (\<lambda>m. m \<in> set (Compression (desc c))) (compressors (config c)) = None"
    by (simp add: find_None_iff)
  then show ?thesis using True by (simp add: selectCompressor_def)
next
  case False
  then show ?thesis by (simp add: selectCompressor_def clientMethodLoop_eq)
qed

lemma setCompressor_compressor:
  "compressor (setCompressor lv m c) =
     (if ToLower m = ''snappy'' then CompressorSnappy
      else if ToLower m = ''zlib'' then CompressorZLib
      else if ToLower m = ''zstd'' then CompressorZstd
      else compressor c)"
  by (simp add: setCompressor_def Let_def)

lemma connect_handshake_ok:
  assumes "connect_handshake h c = ((None, c'), evs)"
  shows "\<exists>info. GetHandshakeInformation h = Inr info \<and> desc c' = Description info
           \<and> config c' = config c \<and> compressor c' = compressor c"
  using assms
  by (auto simp: connect_handshake_def Let_def setGenerationNumber_def
      split: sum.splits if_splits option.splits)

lemma connect_body_ok:
  assumes "connect_body lv c = ((None, c'), evs)" "handshaker (config c) = Some h"
  shows "\<exists>info c2. GetHandshakeInformation h = Inr info \<and> desc c2 = Description info
           \<and> config c2 = config c \<and> compressor c2 = compressor c \<and> c' = selectCompressor lv c2"
proof -
  from assms obtain tempNc nc1 evs1 c2 ev_h where
    "connect_handshake h (c\<lparr>nc := Some nc1\<rparr>) = ((None, c2), ev_h)" "c' = selectCompressor lv c2"
    by (auto simp: connect_body_def Let_def split: sum.splits prod.splits option.splits)
  then show ?thesis
    using connect_handshake_ok [of h "c\<lparr>nc := Some nc1\<rparr>" c2 ev_h] by auto
qed

lemma connect_ok:
  assumes "state c = connInitialized" "connect lv c = ((None, c'), evs)"
    and "handshaker (config c) = Some h"
  shows "\<exists>info. GetHandshakeInformation h = Inr info \<and>
           compressor c' =
             (case find (\<lambda>m. m \<in> set (Compression (Description info))) (compressors (config c)) of
                None \<Rightarrow> compressor c
              | Some m \<Rightarrow> compressor (setCompressor lv m c))"
proof -
  from assms(1,2) have "connect_body lv (c\<lparr>state := connConnected\<rparr>) = ((None, c'), evs)"
    by (auto simp: connect_def split: prod.splits option.splits)
  from connect_body_ok [OF this] assms(3)
  obtain info c2 where i: "GetHandshakeInformation h = Inr info" "desc c2 = Description info"
    "config c2 = config c" "compressor c2 = compressor c" "c' = selectCompressor lv c2"
    by auto
  have "compressor (selectCompressor lv c2) =
      (case find (\<lambda>m. m \<in> set (Compression (desc c2))) (compressors (config c2)) of
                None \<Rightarrow> compressor c2
              | Some m \<Rightarrow> compressor (setCompressor lv m c2))"
    by (simp add: selectCompressor_find [of lv c2] split: option.splits)
  then show ?thesis
    using i by (simp add: setCompressor_compressor split: option.splits)
qed

lemma connect_handshake_mismatch:
  assumes "loadBalanced (config c)" "GetHandshakeInformation h = Inr info"
    and "ServiceID (Description info) = None"
  shows "connect_handshake h c =
     ((Some errLoadBalancedStateMismatch,
       c\<lparr>desc := Description info, serverConnectionID := ServerConnectionID info\<rparr>),
      [Call_GetHandshakeInformation])"
  using assms by (simp add: connect_handshake_def)

lemma LastIndex_from_absent:
  "sep \<notin> set xs \<Longrightarrow> LastIndex_from xs sep i found = found"
  by (induction xs arbitrary: i found) auto

lemma LastIndex_from_last:
  "sep \<notin> set port \<Longrightarrow>
   LastIndex_from (host @ sep # port) sep i found = int (i + length host)"
  by (induction host arbitrary: i found) (auto simp: LastIndex_from_absent)

lemma LastIndex_last:
  "sep \<notin> set port \<Longrightarrow> LastIndex (host @ sep # port) sep = int (length host)"
  by (simp add: LastIndex_def LastIndex_from_last)

lemma LastIndex_absent: "sep \<notin> set s \<Longrightarrow> LastIndex s sep = - 1"
  by (simp add: LastIndex_def LastIndex_from_absent)

lemma configureTLS_events:
  "snd (configureTLS cfg nc0 a tc) =
     Call_TLS_Handshake (ensureServerName a tc) #
       (if tlsHandshake cfg (ensureServerName a tc) = None \<and> \<not> InsecureSkipVerify tc
        then [Call_ocsp_Verify] else [])"
  by (auto simp: configureTLS_def ensureServerName_def Let_def split: option.splits)

lemma ensureServerName_props:
  "InsecureSkipVerify (ensureServerName a tc) = InsecureSkipVerify tc"
  "ServerName tc \<noteq> [] \<Longrightarrow> ensureServerName a tc = tc"
  "ServerName tc = [] \<Longrightarrow> a = host @ CHR '':'' # port \<Longrightarrow> CHR '':'' \<notin> set port \<Longrightarrow>
     ServerName (ensureServerName a tc) = host"
  "ServerName tc = [] \<Longrightarrow> CHR '':'' \<notin> set a \<Longrightarrow> ServerName (ensureServerName a tc) = a"
  by (simp_all add: ensureServerName_def LastIndex_last LastIndex_absent Let_def)

lemma configureTLCP_events:
  "snd (configureTLCP cfg nc0 a tcp) = [Call_TLCP_Handshake tcp]"
  by (simp add: configureTLCP_def split: option.splits)

lemma configureTLCP_result:
  "fst (configureTLCP cfg nc0 a tcp) =
     (case tlcpHandshake cfg tcp of
        Some e \<Rightarrow> Inl e
      | None \<Rightarrow> Inr (nc0\<lparr>layers := layers nc0 @ [TLCP_layer]\<rparr>))"
  by (simp add: configureTLCP_def split: option.splits)

lemma secure_transport_events:
  "set (snd (secure_transport cfg nc0 a)) \<subseteq>
     (case tlsConfig cfg of None \<Rightarrow> {} | Some tc \<Rightarrow> set (snd (configureTLS cfg nc0 a tc)))
     \<union> (case tlcpConfig cfg of None \<Rightarrow> {} | Some tcp \<Rightarrow> {Call_TLCP_Handshake tcp})"
proof -
  have "\<And>n. case tlcpConfig cfg of None \<Rightarrow> True
         | Some tcp \<Rightarrow> snd (configureTLCP cfg n a tcp) = [Call_TLCP_Handshake tcp]"
    by (simp add: configureTLCP_events split: option.splits)
  then show ?thesis
    unfolding secure_transport_def Let_def
    by (auto split: option.splits sum.splits prod.splits simp: configureTLCP_def)
qed

lemma connect_body_events:
  "set (snd (connect_body lv c)) \<subseteq>
     {Call_DialContext, Call_GetHandshakeInformation, Call_FinishHandshake}
     \<union> (case dialer (config c) of
          Inl e \<Rightarrow> {}
        | Inr n \<Rightarrow> set (snd (secure_transport (config c) n (addr c))))"
  by (auto simp: connect_body_def connect_handshake_def Let_def
      split: sum.splits prod.splits option.splits if_splits)

lemma connect_events:
  "set (snd (connect lv c)) \<subseteq>
     {Call_DialContext, Call_GetHandshakeInformation, Call_FinishHandshake, Call_nc_Close}
     \<union> (case dialer (config c) of
          Inl e \<Rightarrow> {}
        | Inr n \<Rightarrow> set (snd (secure_transport (config c) n (addr c))))"
proof (cases "state c = connInitialized")
  case False
  then show ?thesis by (simp add: connect_def)
next
  case True
  have "set (snd (connect lv c)) \<subseteq>
      insert Call_nc_Close (set (snd (connect_body lv (c\<lparr>state := connConnected\<rparr>))))"
    using True by (auto simp: connect_def split: prod.splits option.splits)
  moreover have "set (snd (connect_body lv (c\<lparr>state := connConnected\<rparr>))) \<subseteq>
     {Call_DialContext, Call_GetHandshakeInformation, Call_FinishHandshake}
     \<union> (case dialer (config c) of
          Inl e \<Rightarrow> {}
        | Inr n \<Rightarrow> set (snd (secure_transport (config c) n (addr c))))"
    using connect_body_events [of lv "c\<lparr>state := connConnected\<rparr>"]
    by (cases "dialer (config c)") simp_all
  ultimately show ?thesis by blast
qed

lemma connect_no_ocsp_without_tls:
  assumes "Call_ocsp_Verify \<in> set (snd (connect lv c))"
  shows "tlsConfig (config c) \<noteq> None"
proof
  assume n: "tlsConfig (config c) = None"
  have "Call_ocsp_Verify \<notin> set (snd (secure_transport (config c) m (addr c)))" for m
    using secure_transport_events [of "config c" m "addr c"] n
    by (cases "tlcpConfig (config c)") auto
  then show False
    using assms connect_events [of lv c] by (auto split: sum.splits)
qed

lemma connect_tlcp_config_unchanged:
  assumes "Call_TLCP_Handshake x \<in> set (snd (connect lv c))"
  shows "tlcpConfig (config c) = Some x"
proof -
  obtain n where "Call_TLCP_Handshake x \<in> set (snd (secure_transport (config c) n (addr c)))"
    using assms connect_events [of lv c] by (auto split: sum.splits)
  then show ?thesis
    using secure_transport_events [of "config c" n "addr c"]
    by (auto simp: configureTLS_events split: option.splits if_splits)
qed

lemma connect_tls_handshake:
  assumes "state c = connInitialized" "dialer (config c) = Inr n" "tlsConfig (config c) = Some tc"
  shows "Call_TLS_Handshake (ensureServerName (addr c) tc) \<in> set (snd (connect lv c))"
  using assms
  by (auto simp: connect_def connect_body_def secure_transport_def configureTLS_def Let_def
      split: sum.splits prod.splits option.splits if_splits)

lemma connect_ocsp:
  assumes "state c = connInitialized" "dialer (config c) = Inr n" "tlsConfig (config c) = Some tc"
    and "tlsHandshake (config c) (ensureServerName (addr c) tc) = None" "\<not> InsecureSkipVerify tc"
  shows "Call_ocsp_Verify \<in> set (snd (connect lv c))"
proof -
  have i: "\<not> InsecureSkipVerify (ensureServerName (addr c) tc)"
    using assms(5) by (simp add: ensureServerName_props)
  have "Call_ocsp_Verify \<in> set (snd (secure_transport (config c) n (addr c)))"
    using assms(3,4) i
    by (auto simp: secure_transport_def configureTLS_def Let_def
        split: option.splits sum.splits prod.splits)
  then have "Call_ocsp_Verify \<in> set (snd (connect_body lv (c\<lparr>state := connConnected\<rparr>)))"
    using assms(2)
    by (auto simp: connect_body_def Let_def split: option.splits prod.splits)
  then show ?thesis
    using assms(1) by (auto simp: connect_def split: option.splits prod.splits)
qed

subsection \<open>Load-balanced mode without a service identity (C5)\<close>

text \<open>
  Claim C5. In load-balanced mode, when the dial and the secure transport succeed and
  the first handshake call returns a description without a service identity,
  \<^verbatim>\<open>connect\<close> returns \<^verbatim>\<open>errLoadBalancedStateMismatch\<close> (wrapped in a
  \<^verbatim>\<open>ConnectionError\<close>), leaves the connection disconnected and closes its socket;
  the second handshake call is not made.
\<close>

theorem C5_load_balanced_mismatch:
  assumes "state c = connInitialized" and "loadBalanced (config c)"
    and "dialer (config c) = Inr tempNc"
    and "secure_transport (config c) tempNc (addr c) = ((None, nc1), evs)"
    and "handshaker (config c) = Some h" and "GetHandshakeInformation h = Inr info"
    and "ServiceID (Description info) = None"
  shows "connect lv c =
     ((Some (ConnectionError [] (Some errLoadBalancedStateMismatch) True (Lit [])),
       c\<lparr>state := connDisconnected, nc := Some (nc1\<lparr>nc_closed := True\<rparr>),
         desc := Description info, serverConnectionID := ServerConnectionID info\<rparr>),
      Call_DialContext # evs @ [Call_GetHandshakeInformation, Call_nc_Close])"
proof -
  let ?c0 = "c\<lparr>state := connConnected\<rparr>"
  have hs: "connect_handshake h (?c0\<lparr>nc := Some nc1\<rparr>) =
     ((Some errLoadBalancedStateMismatch,
       ?c0\<lparr>nc := Some nc1, desc := Description info,
           serverConnectionID := ServerConnectionID info\<rparr>),
      [Call_GetHandshakeInformation])"
    using connect_handshake_mismatch [of "?c0\<lparr>nc := Some nc1\<rparr>" h info] assms(2,6,7) by simp
  have body: "connect_body lv ?c0 =
     ((Some (ConnectionError [] (Some errLoadBalancedStateMismatch) True (Lit [])),
       ?c0\<lparr>nc := Some nc1, desc := Description info,
           serverConnectionID := ServerConnectionID info\<rparr>),
      Call_DialContext # evs @ [Call_GetHandshakeInformation])"
    using assms(3,4,5) hs by (simp add: connect_body_def)
  show ?thesis
    using assms(1) by (simp add: connect_def body nc_Close_def)
qed

text \<open>The theorem of claim C5 on a load-balanced connection without TLS.\<close>

theorem C5_witness:
  "connect example_levels (example_initialized True None) =
     ((Some (ConnectionError [] (Some errLoadBalancedStateMismatch) True (Lit [])),
       (example_initialized True None)
         \<lparr>state := connDisconnected, nc := Some ((example_socket [] ErrEOF)\<lparr>nc_closed := True\<rparr>),
          desc := \<lparr>ServiceID = None, MaxMessageSize = 48000000,
                   Compression = [''zlib'', ''snappy'']\<rparr>,
          serverConnectionID := Some 7\<rparr>),
      [Call_DialContext, Call_GetHandshakeInformation, Call_nc_Close])"
proof -
  let ?c = "example_initialized True None"
  have a: "state ?c = connInitialized" "loadBalanced (config ?c)"
    "dialer (config ?c) = Inr (example_socket [] ErrEOF)"
    "secure_transport (config ?c) (example_socket [] ErrEOF) (addr ?c) =
       ((None, example_socket [] ErrEOF), [])"
    "handshaker (config ?c) = Some (example_handshaker None)"
    by (simp_all add: example_initialized_def example_connection_def example_config_def
        secure_transport_def)
  have b: "GetHandshakeInformation (example_handshaker None) =
      Inr \<lparr>Description = \<lparr>ServiceID = None, MaxMessageSize = 48000000,
                                Compression = [''zlib'', ''snappy'']\<rparr>,
             ServerConnectionID = Some 7\<rparr>"
    by (simp add: example_handshaker_def)
  show ?thesis
    using C5_load_balanced_mismatch [OF a b, of example_levels] by simp
qed

subsection \<open>The selection of the compressor (C8)\<close>

text \<open>
  Claim C8. The compressor selection takes the first method of the client's list that
  is also in the server's list and sets the compressor for it, looking at no later
  method; zlib and zstd get the configured level, or the default level when none is
  configured. The client list zstd, zlib, snappy against the server list zlib, snappy
  gives zlib. A successful \<^verbatim>\<open>connect\<close> with a handshaker leaves the compressor so
  selected, from the list of the handshake's description.
\<close>

theorem C8_first_client_match:
  "selectCompressor lv c =
     (case find (\<lambda>m. m \<in> set (Compression (desc c))) (compressors (config c)) of
        None \<Rightarrow> c
      | Some m \<Rightarrow> setCompressor lv m c)
   \<and> (ToLower m = ''zlib'' \<longrightarrow>
        setCompressor lv m c =
          c\<lparr>compressor := CompressorZLib,
            zliblevel := (case zlibLevel (config c) of None \<Rightarrow> DefaultZlibLevel lv | Some l \<Rightarrow> l)\<rparr>)
   \<and> (ToLower m = ''zstd'' \<longrightarrow>
        setCompressor lv m c =
          c\<lparr>compressor := CompressorZstd,
            zstdLevel_c := (case zstdLevel (config c) of None \<Rightarrow> DefaultZstdLevel lv | Some l \<Rightarrow> l)\<rparr>)
   \<and> (compressors (config c) = [''zstd'', ''zlib'', ''snappy'']
        \<and> Compression (desc c) = [''zlib'', ''snappy''] \<longrightarrow>
        compressor (selectCompressor lv c) = CompressorZLib)
   \<and> (state c = connInitialized \<and> handshaker (config c) = Some h
        \<and> connect lv c = ((None, c'), evs) \<longrightarrow>
        (\<exists>info. GetHandshakeInformation h = Inr info \<and>
           compressor c' =
             (case find (\<lambda>m. m \<in> set (Compression (Description info))) (compressors (config c)) of
                None \<Rightarrow> compressor c
              | Some m \<Rightarrow> compressor (setCompressor lv m c))))"
proof -
  have scen: "compressors (config c) = [''zstd'', ''zlib'', ''snappy'']
        \<and> Compression (desc c) = [''zlib'', ''snappy''] \<longrightarrow>
        compressor (selectCompressor lv c) = CompressorZLib"
    by (simp add: selectCompressor_find setCompressor_zlib ToLower_names)
  show ?thesis
    using selectCompressor_find [of lv c] scen setCompressor_zlib [of m lv c]
      setCompressor_zstd [of m lv c] connect_ok [of c lv c' evs h]
    by blast
qed

text \<open>The theorem of claim C8 on a connect that negotiates zlib.\<close>

theorem C8_witness:
  "\<exists>c' evs. connect example_levels (example_initialized False None) = ((None, c'), evs)
      \<and> compressor c' = CompressorZLib"
proof -
  let ?c = "example_initialized False None"
  have ok: "fst (fst (connect example_levels ?c)) = None"
    by (simp add: connect_def connect_body_def secure_transport_def connect_handshake_def
        example_initialized_def example_connection_def example_config_def example_handshaker_def
        example_socket_def Let_def)
  then obtain c' evs where r: "connect example_levels ?c = ((None, c'), evs)"
    by (metis prod.collapse)
  have h: "state ?c = connInitialized \<and> handshaker (config ?c) = Some (example_handshaker None)"
    by (simp add: example_initialized_def example_connection_def example_config_def)
  from C8_first_client_match [of example_levels ?c "''zlib''" "example_handshaker None" c' evs] h r
  obtain info where i: "GetHandshakeInformation (example_handshaker None) = Inr info"
    "compressor c' =
       (case find (\<lambda>m. m \<in> set (Compression (Description info))) (compressors (config ?c)) of
          None \<Rightarrow> compressor ?c
        | Some m \<Rightarrow> compressor (setCompressor example_levels m ?c))"
    by blast
  have "compressor c' = CompressorZLib"
    using i by (auto simp: example_handshaker_def example_initialized_def example_config_def
        setCompressor_def ToLower_names Let_def)
  then show ?thesis using r by blast
qed

subsection \<open>The two secure transports (C9)\<close>

text \<open>
  Claim C9. \<^verbatim>\<open>configureTLS\<close> hands the handshake a configuration whose empty server
  name has been replaced by the host part of the address, and calls \<^verbatim>\<open>ocsp.Verify\<close>
  exactly when the handshake succeeded and verification is not skipped.
  \<^verbatim>\<open>configureTLCP\<close> makes the handshake call alone, on the configuration as it was
  given. Within \<^verbatim>\<open>connect\<close>: a configured TLS gets its handshake with the server name
  set and its revocation check; no revocation check happens without a TLS
  configuration, and every TLCP handshake is on the configured TLCP configuration.
\<close>

theorem C9_tls_and_tlcp_paths:
  "snd (configureTLS cfg nc0 a tc) =
      Call_TLS_Handshake (ensureServerName a tc) #
        (if tlsHandshake cfg (ensureServerName a tc) = None \<and> \<not> InsecureSkipVerify tc
         then [Call_ocsp_Verify] else [])
   \<and> InsecureSkipVerify (ensureServerName a tc) = InsecureSkipVerify tc
   \<and> (ServerName tc \<noteq> [] \<longrightarrow> ensureServerName a tc = tc)
   \<and> (ServerName tc = [] \<and> a = host @ CHR '':'' # port \<and> CHR '':'' \<notin> set port \<longrightarrow>
        ServerName (ensureServerName a tc) = host)
   \<and> (ServerName tc = [] \<and> CHR '':'' \<notin> set a \<longrightarrow> ServerName (ensureServerName a tc) = a)
   \<and> snd (configureTLCP cfg nc0 a tcp) = [Call_TLCP_Handshake tcp]
   \<and> fst (configureTLCP cfg nc0 a tcp) =
        (case tlcpHandshake cfg tcp of
           Some e \<Rightarrow> Inl e
         | None \<Rightarrow> Inr (nc0\<lparr>layers := layers nc0 @ [TLCP_layer]\<rparr>))
   \<and> (state c = connInitialized \<and> dialer (config c) = Inr n \<and> tlsConfig (config c) = Some tc \<longrightarrow>
        Call_TLS_Handshake (ensureServerName (addr c) tc) \<in> set (snd (connect lv c))
        \<and> (tlsHandshake (config c) (ensureServerName (addr c) tc) = None
             \<and> \<not> InsecureSkipVerify tc \<longrightarrow>
            Call_ocsp_Verify \<in> set (snd (connect lv c))))
   \<and> (Call_ocsp_Verify \<in> set (snd (connect lv c)) \<longrightarrow> tlsConfig (config c) \<noteq> None)
   \<and> (Call_TLCP_Handshake x \<in> set (snd (connect lv c)) \<longrightarrow> tlcpConfig (config c) = Some x)"
  using configureTLS_events [of cfg nc0 a tc] ensureServerName_props(1,2,4) [where a = a and tc = tc]
    ensureServerName_props(3) [where tc = tc and a = a and host = host and port = port]
    configureTLCP_events [of cfg nc0 a tcp] configureTLCP_result [of cfg nc0 a tcp]
    connect_tls_handshake [of c n tc lv] connect_ocsp [of c n tc lv]
    connect_no_ocsp_without_tls [of lv c] connect_tlcp_config_unchanged [of x lv c]
  by blast

text \<open>The theorem of claim C9 at the address localhost:27017.\<close>

theorem C9_witness:
  "snd (configureTLS example_config (example_socket [] ErrEOF) ''localhost:27017'' example_tls) =
      [Call_TLS_Handshake (example_tls\<lparr>ServerName := ''localhost''\<rparr>), Call_ocsp_Verify]
   \<and> snd (configureTLCP example_config (example_socket [] ErrEOF) ''localhost:27017'' example_tlcp) =
      [Call_TLCP_Handshake example_tlcp]"
proof -
  note t = C9_tls_and_tlcp_paths [of example_config "example_socket [] ErrEOF" "''localhost:27017''"
      example_tls "''localhost''" "''27017''" example_tlcp]
  have h: "ServerName example_tls = [] \<and> ''localhost:27017'' = ''localhost'' @ CHR '':'' # ''27017''
      \<and> CHR '':'' \<notin> set ''27017''"
    by (simp add: example_tls_def)
  from t h have n: "ServerName (ensureServerName ''localhost:27017'' example_tls) = ''localhost''"
    by blast
  from t have i: "InsecureSkipVerify (ensureServerName ''localhost:27017'' example_tls)
      = InsecureSkipVerify example_tls"
    by blast
  have e: "ensureServerName ''localhost:27017'' example_tls = example_tls\<lparr>ServerName := ''localhost''\<rparr>"
    using n i by (intro tls_config.equality) simp_all
  from t have "snd (configureTLS example_config (example_socket [] ErrEOF) ''localhost:27017'' example_tls) =
      Call_TLS_Handshake (ensureServerName ''localhost:27017'' example_tls) #
        (if tlsHandshake example_config (ensureServerName ''localhost:27017'' example_tls) = None
            \<and> \<not> InsecureSkipVerify example_tls
         then [Call_ocsp_Verify] else [])"
    by blast
  moreover from t have "snd (configureTLCP example_config (example_socket [] ErrEOF)
      ''localhost:27017'' example_tlcp) = [Call_TLCP_Handshake example_tlcp]"
    by blast
  moreover have "tlsHandshake example_config z = None" for z
    by (simp add: example_config_def)
  moreover have "\<not> InsecureSkipVerify example_tls"
    by (simp add: example_tls_def)
  ultimately show ?thesis
    by (simp add: e)
qed

subsection \<open>Facts about the handle\<close>

lemma ReadHeader_short: "length src < 16 \<Longrightarrow> ReadHeader src = (0, 0, 0, 0, src, False)"
  by (simp add: ReadHeader_def)

lemma do_call_live:
  assumes "connection h \<noteq> None"
  shows "\<exists>err h1 calls. do_call x h = Returns (err, h1, calls)
      \<and> connection h1 = connection h \<and> cleanupServerFn h1 = cleanupServerFn h
      \<and> calls = (if (x = Call_PinToCursor \<or> x = Call_PinToTransaction) \<and> refCount h = 0
                  then [if x = Call_PinToCursor then pinConnectionToCursor
                        else pinConnectionToTransaction]
                  else [])
      \<and> ((refCount h = 0 \<and> refCount h1 = 1) \<longleftrightarrow>
           ((x = Call_PinToCursor \<or> x = Call_PinToTransaction) \<and> refCount h = 0))
      \<and> (if (x = Call_PinToCursor \<or> x = Call_PinToTransaction) \<and> refCount h = 0
          then cleanupPoolFn h1 = Some (if x = Call_PinToCursor then unpinConnectionFromCursor
                                        else unpinConnectionFromTransaction)
          else cleanupPoolFn h1 = cleanupPoolFn h)"
  using assms
  by (cases x)
     (auto simp: PinToCursor_def PinToTransaction_def UnpinFromCursor_def UnpinFromTransaction_def
        pin_def unpin_def Let_def split: option.splits)

lemma run_calls_live:
  assumes "connection h \<noteq> None"
  shows "\<exists>h' calls counts. run_calls xs h = Returns (h', calls, counts)
      \<and> connection h' = connection h \<and> cleanupServerFn h' = cleanupServerFn h
      \<and> (\<forall>f \<in> set calls. is_pin_accounting f)
      \<and> length calls = transitions 0 1 (refCount h # counts)
      \<and> (counts \<noteq> [] \<longrightarrow> refCount h' = last counts) \<and> (counts = [] \<longrightarrow> h' = h)
      \<and> ((0 < transitions 0 1 (refCount h # counts) \<or> (\<exists>f. cleanupPoolFn h = Some f \<and> is_pin_cleanup f))
           \<longrightarrow> (\<exists>f. cleanupPoolFn h' = Some f \<and> is_pin_cleanup f))"
  using assms
proof (induction xs arbitrary: h)
  case Nil
  then show ?case by simp
next
  case (Cons x xs)
  from do_call_live [OF Cons.prems, of x]
  obtain err h1 calls where d: "do_call x h = Returns (err, h1, calls)"
    "connection h1 = connection h" "cleanupServerFn h1 = cleanupServerFn h"
    "calls = (if (x = Call_PinToCursor \<or> x = Call_PinToTransaction) \<and> refCount h = 0
                  then [if x = Call_PinToCursor then pinConnectionToCursor
                        else pinConnectionToTransaction]
                  else [])"
    "(refCount h = 0 \<and> refCount h1 = 1) \<longleftrightarrow>
           ((x = Call_PinToCursor \<or> x = Call_PinToTransaction) \<and> refCount h = 0)"
    "if (x = Call_PinToCursor \<or> x = Call_PinToTransaction) \<and> refCount h = 0
          then cleanupPoolFn h1 = Some (if x = Call_PinToCursor then unpinConnectionFromCursor
                                        else unpinConnectionFromTransaction)
          else cleanupPoolFn h1 = cleanupPoolFn h"
    by blast
  have live1: "connection h1 \<noteq> None" using d(2) Cons.prems by simp
  from Cons.IH [OF live1]
  obtain h' calls2 counts where r: "run_calls xs h1 = Returns (h', calls2, counts)"
    "connection h' = connection h1" "cleanupServerFn h' = cleanupServerFn h1"
    "\<forall>f \<in> set calls2. is_pin_accounting f"
    "length calls2 = transitions 0 1 (refCount h1 # counts)"
    "counts \<noteq> [] \<longrightarrow> refCount h' = last counts" "counts = [] \<longrightarrow> h' = h1"
    "(0 < transitions 0 1 (refCount h1 # counts) \<or> (\<exists>f. cleanupPoolFn h1 = Some f \<and> is_pin_cleanup f))
           \<longrightarrow> (\<exists>f. cleanupPoolFn h' = Some f \<and> is_pin_cleanup f)"
    by blast
  have run: "run_calls (x # xs) h = Returns (h', calls @ calls2, refCount h1 # counts)"
    using d(1) r(1) by simp
  have tr: "transitions 0 1 (refCount h # refCount h1 # counts) =
      (if refCount h = 0 \<and> refCount h1 = 1 then 1 else 0) + transitions 0 1 (refCount h1 # counts)"
    by simp
  have len: "length (calls @ calls2) = transitions 0 1 (refCount h # refCount h1 # counts)"
    using d(4,5) r(5) unfolding tr by (simp split: if_splits)
  have acc: "\<forall>f \<in> set (calls @ calls2). is_pin_accounting f"
    using d(4) r(4) by (auto simp: is_pin_accounting_def split: if_splits)
  have lastc: "refCount h' = last (refCount h1 # counts)"
    using r(6,7) by (cases counts) auto
  have cl: "(0 < transitions 0 1 (refCount h # refCount h1 # counts)
        \<or> (\<exists>f. cleanupPoolFn h = Some f \<and> is_pin_cleanup f))
           \<longrightarrow> (\<exists>f. cleanupPoolFn h' = Some f \<and> is_pin_cleanup f)"
  proof
    assume a: "0 < transitions 0 1 (refCount h # refCount h1 # counts)
        \<or> (\<exists>f. cleanupPoolFn h = Some f \<and> is_pin_cleanup f)"
    have "0 < transitions 0 1 (refCount h1 # counts)
        \<or> (\<exists>f. cleanupPoolFn h1 = Some f \<and> is_pin_cleanup f)"
    proof (cases "(x = Call_PinToCursor \<or> x = Call_PinToTransaction) \<and> refCount h = 0")
      case True
      then have "\<exists>f. cleanupPoolFn h1 = Some f \<and> is_pin_cleanup f"
        using d(6) by (auto simp: is_pin_cleanup_def)
      then show ?thesis by blast
    next
      case False
      then have "cleanupPoolFn h1 = cleanupPoolFn h" "\<not> (refCount h = 0 \<and> refCount h1 = 1)"
        using d(5,6) by auto
      then show ?thesis using a unfolding tr by auto
    qed
    then show "\<exists>f. cleanupPoolFn h' = Some f \<and> is_pin_cleanup f"
      using r(8) by blast
  qed
  show ?case
    using run d(2,3) r(2,3) len acc lastc cl by simp
qed

lemma accounting_not_cleanup: "is_pin_accounting f \<Longrightarrow> \<not> is_pin_cleanup f"
  by (auto simp: is_pin_accounting_def is_pin_cleanup_def)

lemma filter_all: "\<forall>f \<in> set xs. P f \<Longrightarrow> filter P xs = xs"
  by (induction xs) auto

lemma filter_none: "\<forall>f \<in> set xs. \<not> P f \<Longrightarrow> filter P xs = []"
  by (induction xs) auto

lemma cleanupReferences_live:
  assumes "connection h = Some c" "cleanupPoolFn h = Some f" "is_pin_cleanup f"
  shows "\<exists>e h'' cs. cleanupReferences h = Returns (e, h'', cs)
      \<and> filter is_pin_cleanup cs = [f] \<and> cleanupPoolFn h'' = None \<and> connection h'' = None"
  using assms by (simp add: cleanupReferences_def is_pin_cleanup_def)

lemma Expire_live:
  assumes "connection h \<noteq> None" "cleanupPoolFn h = Some f" "is_pin_cleanup f"
  shows "\<exists>e h'' cs. Expire h = Returns (e, h'', cs)
      \<and> filter is_pin_cleanup cs = [f] \<and> cleanupPoolFn h'' = None \<and> connection h'' = None"
proof -
  obtain c where c: "connection h = Some c" using assms(1) by auto
  have "Expire h = cleanupReferences (h\<lparr>connection := Some (snd (close c))\<rparr>)"
    using c by (simp add: Expire_def)
  then show ?thesis
    using cleanupReferences_live [of "h\<lparr>connection := Some (snd (close c))\<rparr>" "snd (close c)" f]
      assms(2,3) by simp
qed

lemma Close_live:
  assumes "connection h \<noteq> None" "cleanupPoolFn h = Some f" "is_pin_cleanup f" "refCount h = 0"
  shows "\<exists>e h'' cs. Close h = Returns (e, h'', cs)
      \<and> filter is_pin_cleanup cs = [f] \<and> cleanupPoolFn h'' = None \<and> connection h'' = None"
proof -
  obtain c where c: "connection h = Some c" using assms(1) by auto
  have "Close h = cleanupReferences h"
    using c assms(4) by (simp add: Close_def)
  then show ?thesis
    using cleanupReferences_live [OF c assms(2,3)] by simp
qed

subsection \<open>Pin accounting (C3)\<close>

text \<open>
  Claim C3, as amended. For every sequence of pin and unpin calls on a live handle, the
  pool-accounting callback runs exactly once per step of the pin count from 0 to 1, and
  no call of the sequence runs a cleanup callback. After a step from 0 to 1 the handle
  holds the cleanup callback of its latest such step; the release of the handle
  (\<^verbatim>\<open>Expire\<close>, or \<^verbatim>\<open>Close\<close> at count zero) runs it exactly once and clears it.
\<close>

theorem C3_pin_callbacks:
  assumes "connection h \<noteq> None"
  shows "\<exists>h' calls counts. run_calls xs h = Returns (h', calls, counts)
      \<and> length (filter is_pin_accounting calls) = transitions 0 1 (refCount h # counts)
      \<and> filter is_pin_cleanup calls = []
      \<and> (0 < transitions 0 1 (refCount h # counts) \<longrightarrow>
           (\<exists>f. cleanupPoolFn h' = Some f \<and> is_pin_cleanup f
              \<and> (\<exists>e h'' cs. Expire h' = Returns (e, h'', cs)
                    \<and> filter is_pin_cleanup cs = [f] \<and> cleanupPoolFn h'' = None
                    \<and> connection h'' = None)
              \<and> (refCount h' = 0 \<longrightarrow>
                   (\<exists>e h'' cs. Close h' = Returns (e, h'', cs)
                    \<and> filter is_pin_cleanup cs = [f] \<and> cleanupPoolFn h'' = None
                    \<and> connection h'' = None))))"
proof -
  from run_calls_live [OF assms, of xs]
  obtain h' calls counts where r: "run_calls xs h = Returns (h', calls, counts)"
    "connection h' = connection h" "\<forall>f \<in> set calls. is_pin_accounting f"
    "length calls = transitions 0 1 (refCount h # counts)"
    "0 < transitions 0 1 (refCount h # counts)
       \<longrightarrow> (\<exists>f. cleanupPoolFn h' = Some f \<and> is_pin_cleanup f)"
    by blast
  have live: "connection h' \<noteq> None" using r(2) assms by simp
  have a: "filter is_pin_accounting calls = calls"
    using r(3) by (rule filter_all)
  have b: "filter is_pin_cleanup calls = []"
    using r(3) accounting_not_cleanup by (intro filter_none) blast
  have c: "0 < transitions 0 1 (refCount h # counts) \<longrightarrow>
           (\<exists>f. cleanupPoolFn h' = Some f \<and> is_pin_cleanup f
              \<and> (\<exists>e h'' cs. Expire h' = Returns (e, h'', cs)
                    \<and> filter is_pin_cleanup cs = [f] \<and> cleanupPoolFn h'' = None
                    \<and> connection h'' = None)
              \<and> (refCount h' = 0 \<longrightarrow>
                   (\<exists>e h'' cs. Close h' = Returns (e, h'', cs)
                    \<and> filter is_pin_cleanup cs = [f] \<and> cleanupPoolFn h'' = None
                    \<and> connection h'' = None)))"
    using r(5) Expire_live [OF live] Close_live [OF live] by blast
  show ?thesis
    using r(1,4) a b c by (intro exI conjI) (assumption | simp)+
qed

text \<open>The theorem of claim C3 at a handle pinned for a cursor and a transaction.\<close>

theorem C3_witness:
  "\<exists>h' calls counts.
      run_calls [Call_PinToCursor, Call_PinToTransaction, Call_UnpinFromTransaction,
                 Call_UnpinFromCursor] example_handle = Returns (h', calls, counts)
      \<and> counts = [1, 2, 1, 0]
      \<and> length (filter is_pin_accounting calls) = 1
      \<and> filter is_pin_cleanup calls = []
      \<and> (\<exists>e h'' cs. Close h' = Returns (e, h'', cs)
            \<and> filter is_pin_cleanup cs = [unpinConnectionFromCursor])"
proof -
  let ?xs = "[Call_PinToCursor, Call_PinToTransaction, Call_UnpinFromTransaction,
                 Call_UnpinFromCursor]"
  have live: "connection example_handle \<noteq> None"
    by (simp add: example_handle_def)
  have ev: "run_calls ?xs example_handle =
      Returns (example_handle\<lparr>cleanupPoolFn := Some unpinConnectionFromCursor\<rparr>,
               [pinConnectionToCursor], [1, 2, 1, 0])"
    by (simp add: PinToCursor_def PinToTransaction_def UnpinFromCursor_def
        UnpinFromTransaction_def pin_def unpin_def example_handle_def)
  let ?h = "example_handle\<lparr>cleanupPoolFn := Some unpinConnectionFromCursor\<rparr>"
  from C3_pin_callbacks [OF live, of ?xs]
  have "length (filter is_pin_accounting [pinConnectionToCursor]) =
          transitions 0 1 (refCount example_handle # [1, 2, 1, 0])
      \<and> filter is_pin_cleanup [pinConnectionToCursor] = []
      \<and> (0 < transitions 0 1 (refCount example_handle # [1, 2, 1, 0]) \<longrightarrow>
           (\<exists>f. cleanupPoolFn ?h = Some f \<and> is_pin_cleanup f
              \<and> (\<exists>e h'' cs. Expire ?h = Returns (e, h'', cs)
                    \<and> filter is_pin_cleanup cs = [f] \<and> cleanupPoolFn h'' = None
                    \<and> connection h'' = None)
              \<and> (refCount ?h = 0 \<longrightarrow>
                   (\<exists>e h'' cs. Close ?h = Returns (e, h'', cs)
                    \<and> filter is_pin_cleanup cs = [f] \<and> cleanupPoolFn h'' = None
                    \<and> connection h'' = None))))"
    unfolding ev by simp
  moreover have "transitions 0 1 (refCount example_handle # [1, 2, 1, 0]) = 1"
    "refCount ?h = 0" "cleanupPoolFn ?h = Some unpinConnectionFromCursor"
    by (simp_all add: example_handle_def)
  ultimately have "length (filter is_pin_accounting [pinConnectionToCursor]) = 1
      \<and> filter is_pin_cleanup [pinConnectionToCursor] = []
      \<and> (\<exists>e h'' cs. Close ?h = Returns (e, h'', cs)
            \<and> filter is_pin_cleanup cs = [unpinConnectionFromCursor])"
    by auto
  then show ?thesis
    unfolding ev by simp
qed

text \<open>
  Claim C3 as stated fails: a pin and its unpin take the count from 0 to 1 and back to
  0, and the only callback run is the pin accounting.
\<close>

theorem C3_counterexample:
  "run_calls [Call_PinToCursor, Call_UnpinFromCursor] example_handle =
     Returns (example_handle\<lparr>cleanupPoolFn := Some unpinConnectionFromCursor\<rparr>,
              [pinConnectionToCursor], [1, 0])
   \<and> transitions 1 0 (refCount example_handle # [1, 0]) = 1
   \<and> length (filter is_pin_cleanup [pinConnectionToCursor]) = 0"
  by (simp add: PinToCursor_def UnpinFromCursor_def pin_def unpin_def example_handle_def
      is_pin_cleanup_def)

subsection \<open>Calls on a released handle (C4)\<close>

text \<open>
  Claim C4 fails on the code. \<^verbatim>\<open>Expire\<close> releases a handle; on the released handle
  \<^verbatim>\<open>Stale\<close> and \<^verbatim>\<open>DriverConnectionID\<close> dereference the nil connection, and so
  do \<^verbatim>\<open>PinToCursor\<close> and \<^verbatim>\<open>PinToTransaction\<close> before they reach the check of
  \<^verbatim>\<open>pin\<close>.
\<close>

theorem C4_released_handle_panics:
  "Expire example_handle =
      Returns (None, example_handle\<lparr>cleanupServerFn := False, connection := None\<rparr>,
               [pool_checkIn, cleanupServer])
   \<and> Stale (example_handle\<lparr>cleanupServerFn := False, connection := None\<rparr>) = Panics
   \<and> DriverConnectionID (example_handle\<lparr>cleanupServerFn := False, connection := None\<rparr>) = Panics
   \<and> PinToCursor (example_handle\<lparr>cleanupServerFn := False, connection := None\<rparr>) = Panics
   \<and> PinToTransaction (example_handle\<lparr>cleanupServerFn := False, connection := None\<rparr>) = Panics"
  by (simp add: Expire_def cleanupReferences_def Stale_def DriverConnectionID_def PinToCursor_def
      PinToTransaction_def example_handle_def example_connection_def close_def nc_Close_def
      example_socket_def)

subsection \<open>Compression of short messages (C10)\<close>

text \<open>
  Claim C10. On a live handle whose compressor is not the no-op compressor, a source
  message of fewer than 16 bytes makes \<^verbatim>\<open>CompressWireMessage\<close> return the
  destination as it was, with an error; with the no-op compressor the source bytes are
  appended to the destination, whatever their number.
\<close>

theorem C10_compress_short_or_noop:
  assumes "connection h = Some c"
  shows "(compressor c \<noteq> CompressorNoOp \<and> length src < 16 \<longrightarrow>
            CompressWireMessage CompressPayload h src dst = Returns (dst, Some ErrTooShortToCompress))
       \<and> (compressor c = CompressorNoOp \<longrightarrow>
            CompressWireMessage CompressPayload h src dst = Returns (dst @ src, None))"
  using assms by (simp add: CompressWireMessage_def ReadHeader_short)

text \<open>The theorem of claim C10 at a source of three bytes.\<close>

theorem C10_witness:
  "CompressWireMessage example_codec example_zlib_handle [1, 2, 3] [9] =
      Returns ([9], Some ErrTooShortToCompress)
   \<and> CompressWireMessage example_codec example_handle [1, 2, 3] [9] = Returns ([9, 1, 2, 3], None)"
proof -
  have a: "connection example_zlib_handle = Some ((example_connection [] ErrEOF)
       \<lparr>compressor := CompressorZLib, zliblevel := 6\<rparr>)"
    by (simp add: example_zlib_handle_def)
  have b: "connection example_handle = Some (example_connection [] ErrEOF)"
    by (simp add: example_handle_def)
  show ?thesis
    using C10_compress_short_or_noop [OF a, of "[1, 2, 3]" example_codec "[9]"]
      C10_compress_short_or_noop [OF b, of "[1, 2, 3]" example_codec "[9]"]
    by (simp add: example_connection_def)
qed

end
